theory Spec2Isabelle
  imports Main "HOL-Library.Monad_Syntax"
begin

section \<open>Pocket Progress: the state logic of App.jsx\<close>

text \<open>
  The repository holds two versions of the component \<open>App\<close>: the full one (the file
  whose header comment reads \<open>App.jsx\<close>, with the knob, the settings drawer and the
  entries manager) and the shorter \<open>src/App.jsx\<close> (the same persistent state and
  \<open>addEntry\<close>, a placeholder for the user interface). Definitions without a suffix
  embed the full component; definitions ending in \<open>_src\<close> embed \<open>src/App.jsx\<close>.

  Every handler of the component runs to completion inside one React event, and the
  state updates it queues are applied together before the next render. A handler is
  therefore a function from the state before the event to the state after it.
\<close>

subsection \<open>Numbers\<close>

text \<open>
  A JavaScript number is a double. The model has the doubles that are integers
  (\<open>Num n\<close>, for an integer \<open>n\<close> that a double represents), the two infinities and
  \<open>NaN\<close>; it has no fractions and does not tell \<open>-0\<close> from 0 (the component never
  does). A string or a pointer position that would bring in a fraction is outside the
  model: the function that reads it has the value \<open>None\<close> there, which is never an
  exception of the code.

  The integers of magnitude at most \<open>2^53 - 1\<close> (\<open>Number.MAX_SAFE_INTEGER\<close>) are
  the safe ones: every one of them is a double.
\<close>

datatype jsnum = NaN | Num int | PosInf | NegInf

definition safe :: "int \<Rightarrow> bool" where
  "safe n \<longleftrightarrow> - 9007199254740991 \<le> n \<and> n \<le> 9007199254740991"

text \<open>
  The sum, difference or product of two integer doubles is the exact integer rounded
  to the nearest double, a tie going to the even significand, and to an infinity from
  \<open>2^1024 - 2^970\<close> on. For a magnitude \<open>m\<close>, \<open>binade m\<close> counts the halvings that
  bring \<open>m\<close> below \<open>2^53\<close>, so the doubles around \<open>m\<close> are the multiples of
  \<open>2 ^ binade m\<close>; a rounded magnitude is finite when its \<open>binade\<close> is at most 971.
\<close>

function binade :: "int \<Rightarrow> nat" where
  "binade m = (if m < 9007199254740992 then 0 else Suc (binade (m div 2)))"
  by pat_completeness auto
termination
  by (relation "measure nat") auto

declare binade.simps [simp del]

definition round_even :: "int \<Rightarrow> int" where
  "round_even m =
     (let q = 2 ^ binade m; k = m div q; r = m mod q in
      if 2 * r < q then k * q
      else if q < 2 * r then (k + 1) * q
      else if even k then k * q else (k + 1) * q)"

definition to_double :: "int \<Rightarrow> jsnum" where
  "to_double n =
     (let r = round_even \<bar>n\<bar> in
      if 971 < binade r then (if n < 0 then NegInf else PosInf)
      else Num (if n < 0 then - r else r))"

text \<open>\<open>a + b\<close>, \<open>- a\<close>, \<open>a - b\<close> and \<open>a * b\<close>.\<close>

fun jadd :: "jsnum \<Rightarrow> jsnum \<Rightarrow> jsnum" where
  "jadd NaN _ = NaN"
| "jadd _ NaN = NaN"
| "jadd (Num a) (Num b) = to_double (a + b)"
| "jadd PosInf NegInf = NaN"
| "jadd NegInf PosInf = NaN"
| "jadd PosInf _ = PosInf"
| "jadd _ PosInf = PosInf"
| "jadd NegInf _ = NegInf"
| "jadd _ NegInf = NegInf"

fun jneg :: "jsnum \<Rightarrow> jsnum" where
  "jneg NaN = NaN"
| "jneg (Num a) = Num (- a)"
| "jneg PosInf = NegInf"
| "jneg NegInf = PosInf"

definition jsub :: "jsnum \<Rightarrow> jsnum \<Rightarrow> jsnum" where
  "jsub x y = jadd x (jneg y)"

fun sign_of :: "jsnum \<Rightarrow> int" where
  "sign_of NaN = 0"
| "sign_of (Num a) = sgn a"
| "sign_of PosInf = 1"
| "sign_of NegInf = - 1"

fun jmul :: "jsnum \<Rightarrow> jsnum \<Rightarrow> jsnum" where
  "jmul NaN _ = NaN"
| "jmul _ NaN = NaN"
| "jmul (Num a) (Num b) = to_double (a * b)"
| "jmul x y =
     (if sign_of x * sign_of y = 0 then NaN
      else if 0 < sign_of x * sign_of y then PosInf else NegInf)"

text \<open>\<open>a <= b\<close>: false as soon as an operand is \<open>NaN\<close>.\<close>

fun jle :: "jsnum \<Rightarrow> jsnum \<Rightarrow> bool" where
  "jle NaN _ = False"
| "jle _ NaN = False"
| "jle (Num a) (Num b) = (a \<le> b)"
| "jle NegInf _ = True"
| "jle _ PosInf = True"
| "jle _ _ = False"

text \<open>\<open>Math.max\<close> and \<open>Math.min\<close> of two arguments: \<open>NaN\<close> if either is \<open>NaN\<close>.\<close>

definition Math_max :: "jsnum \<Rightarrow> jsnum \<Rightarrow> jsnum" where
  "Math_max x y = (if x = NaN \<or> y = NaN then NaN else if jle x y then y else x)"

definition Math_min :: "jsnum \<Rightarrow> jsnum \<Rightarrow> jsnum" where
  "Math_min x y = (if x = NaN \<or> y = NaN then NaN else if jle x y then x else y)"

text \<open>\<^verbatim>\<open>const clamp = (v, a, b) => Math.max(a, Math.min(b, v));\<close>\<close>

definition clamp :: "jsnum \<Rightarrow> jsnum \<Rightarrow> jsnum \<Rightarrow> jsnum" where
  "clamp v a b = Math_max a (Math_min b v)"

text \<open>
  \<open>a - b\<close> on two pointer positions, which are whole numbers of pixels in the safe
  range here.
\<close>

definition isub :: "int \<Rightarrow> int \<Rightarrow> int option" where
  "isub a b = (if safe a \<and> safe b \<and> safe (a - b) then Some (a - b) else None)"

text \<open>
  \<open>Math.round(a / b)\<close> for a safe integer \<open>a\<close> and \<open>b = 10\<close>, the only divisor
  the component uses: the integer nearest to the quotient, a tie going up
  (\<open>Math.round(2.5)\<close> is 3, \<open>Math.round(-2.5)\<close> is \<open>-2\<close>, and
  \<open>Math.round(-0.5)\<close> is \<open>-0\<close>, which \<open>!== 0\<close> treats as 0). That is the floor
  of \<open>a / b + 1/2\<close>. The double \<open>a / 10\<close> is within 1/16 of the exact quotient,
  and the exact quotient is a multiple of 1/2 (then the double is exact) or at least
  1/10 away from one, so rounding the double gives the same integer.
\<close>

definition Math_round_div :: "int \<Rightarrow> int \<Rightarrow> int" where
  "Math_round_div a b = (2 * a + b) div (2 * b)"

subsection \<open>Strings\<close>

text \<open>
  A string is a list of code units; the model has the code units below 256. The
  white space that \<open>trim\<close> and \<open>Number\<close> strip is, in this range, TAB, LF, VT, FF,
  CR, SP and NBSP.
\<close>

definition is_ws :: "char \<Rightarrow> bool" where
  "is_ws c \<longleftrightarrow> (of_char c :: nat) \<in> {9, 10, 11, 12, 13, 32, 160}"

definition trim :: "string \<Rightarrow> string" where
  "trim s = rev (dropWhile is_ws (rev (dropWhile is_ws s)))"

definition is_digit :: "char \<Rightarrow> bool" where
  "is_digit c \<longleftrightarrow> c \<in> set ''0123456789''"

definition digit_val :: "char \<Rightarrow> int" where
  "digit_val c = of_char c - 48"

definition int_of_digits :: "string \<Rightarrow> int" where
  "int_of_digits ds = foldl (\<lambda>n c. 10 * n + digit_val c) 0 ds"

text \<open>
  The grammar \<open>StringNumericLiteral\<close> of ECMA-262, which \<open>Number\<close> applies to a
  string: after trimming, the empty string is 0; a \<open>StrDecimalLiteral\<close> is an optional
  sign and then \<open>Infinity\<close>, or digits with an optional fraction and exponent; a
  \<open>NonDecimalIntegerLiteral\<close> is \<open>0x\<close>, \<open>0o\<close> or \<open>0b\<close> and digits of that base,
  with no sign. Everything else is \<open>NaN\<close>.
\<close>

definition strip_sign :: "string \<Rightarrow> string" where
  "strip_sign s = (case s of [] \<Rightarrow> [] | c # r \<Rightarrow> if c = CHR ''+'' \<or> c = CHR ''-'' then r else s)"

definition is_ExponentPart :: "string \<Rightarrow> bool" where
  "is_ExponentPart s =
     (case s of
        [] \<Rightarrow> False
      | c # r \<Rightarrow> (c = CHR ''e'' \<or> c = CHR ''E'') \<and> strip_sign r \<noteq> [] \<and> list_all is_digit (strip_sign r))"

definition is_StrUnsignedDecimalLiteral :: "string \<Rightarrow> bool" where
  "is_StrUnsignedDecimalLiteral s =
     (s = ''Infinity'' \<or>
      (let ip = takeWhile is_digit s; r1 = dropWhile is_digit s in
       case r1 of
         [] \<Rightarrow> ip \<noteq> []
       | c # r2 \<Rightarrow>
           if c = CHR ''.'' then
             (let fp = takeWhile is_digit r2; r3 = dropWhile is_digit r2 in
              (ip \<noteq> [] \<or> fp \<noteq> []) \<and> (r3 = [] \<or> is_ExponentPart r3))
           else ip \<noteq> [] \<and> is_ExponentPart r1))"

definition is_StrDecimalLiteral :: "string \<Rightarrow> bool" where
  "is_StrDecimalLiteral s = is_StrUnsignedDecimalLiteral (strip_sign s)"

definition is_NonDecimalIntegerLiteral :: "string \<Rightarrow> bool" where
  "is_NonDecimalIntegerLiteral s =
     (case s of
        c0 # c1 # r \<Rightarrow>
          c0 = CHR ''0'' \<and> r \<noteq> [] \<and>
          ((c1 = CHR ''x'' \<or> c1 = CHR ''X'') \<and> list_all (\<lambda>c. c \<in> set ''0123456789abcdefABCDEF'') r \<or>
           (c1 = CHR ''o'' \<or> c1 = CHR ''O'') \<and> list_all (\<lambda>c. c \<in> set ''01234567'') r \<or>
           (c1 = CHR ''b'' \<or> c1 = CHR ''B'') \<and> list_all (\<lambda>c. c \<in> set ''01'') r)
      | _ \<Rightarrow> False)"

definition is_signed_digits :: "string \<Rightarrow> bool" where
  "is_signed_digits s \<longleftrightarrow> strip_sign s \<noteq> [] \<and> list_all is_digit (strip_sign s)"

definition int_of_signed_digits :: "string \<Rightarrow> int" where
  "int_of_signed_digits s =
     (case s of
        [] \<Rightarrow> 0
      | c # r \<Rightarrow> if c = CHR ''-'' then - int_of_digits r else int_of_digits (strip_sign s))"

text \<open>
  \<open>Number(str)\<close>. A literal that is an optionally signed run of decimal digits is
  that integer rounded to a double, when it has at most 20 significant digits (digits
  between the first and the last that is not 0): beyond 20 the standard lets an
  implementation drop digits. \<open>Infinity\<close> with an optional sign is an infinity. Any
  other numeric literal (a fraction, an exponent, another base) is outside the model;
  a string that is no numeric literal is \<open>NaN\<close>.
\<close>

definition significant :: "string \<Rightarrow> nat" where
  "significant ds =
     length (dropWhile (\<lambda>c. c = CHR ''0'') (rev (dropWhile (\<lambda>c. c = CHR ''0'') ds)))"

definition StringToNumber :: "string \<Rightarrow> jsnum option" where
  "StringToNumber str =
     (let t = trim str in
      if t = [] then Some (Num 0)
      else if is_signed_digits t then
        (if significant (strip_sign t) \<le> 20 then Some (to_double (int_of_signed_digits t))
         else None)
      else if t = ''Infinity'' \<or> t = ''+Infinity'' then Some PosInf
      else if t = ''-Infinity'' then Some NegInf
      else if is_StrDecimalLiteral t \<or> is_NonDecimalIntegerLiteral t then None
      else Some NaN)"

text \<open>
  \<open>String(x)\<close>: the decimal digits of a safe integer (\<open>decimal\<close>, used from 0 up)
  with a minus sign below 0, and the names of \<open>NaN\<close> and the infinities. The digits
  JavaScript chooses for a larger integer are outside the model.
\<close>

function decimal :: "int \<Rightarrow> string" where
  "decimal n =
     (if n < 10 then [''0123456789'' ! nat n]
      else decimal (n div 10) @ [''0123456789'' ! nat (n mod 10)])"
  by pat_completeness auto
termination
  by (relation "measure nat") auto

declare decimal.simps [simp del]

fun String_of_num :: "jsnum \<Rightarrow> string option" where
  "String_of_num NaN = Some ''NaN''"
| "String_of_num PosInf = Some ''Infinity''"
| "String_of_num NegInf = Some ''-Infinity''"
| "String_of_num (Num n) =
     (if \<not> safe n then None
      else if n < 0 then Some (CHR ''-'' # decimal (- n))
      else Some (decimal n))"

text \<open>
  The values an argument of \<open>addEntry\<close> can be, and \<open>Number\<close> and truthiness on
  them.
\<close>

datatype jsval = VNum jsnum | VStr string | VBool bool | VNull | VUndefined

fun Number :: "jsval \<Rightarrow> jsnum option" where
  "Number (VNum n) = Some n"
| "Number (VStr s) = StringToNumber s"
| "Number (VBool b) = Some (Num (if b then 1 else 0))"
| "Number VNull = Some (Num 0)"
| "Number VUndefined = Some NaN"

fun truthy :: "jsval \<Rightarrow> bool" where
  "truthy (VNum n) = (n \<noteq> NaN \<and> n \<noteq> Num 0)"
| "truthy (VStr s) = (s \<noteq> [])"
| "truthy (VBool b) = b"
| "truthy VNull = False"
| "truthy VUndefined = False"

subsection \<open>The ledger\<close>

text \<open>
  An entry is \<^verbatim>\<open>{ amount, partName, date }\<close>: \<open>amount\<close> is a number, \<open>partName\<close>
  is a string or \<open>null\<close>, and \<open>date\<close> is missing from an entry that \<open>saveEdit\<close>
  built from nothing. An array slot holds an entry, or \<open>undefined\<close>, or is a hole (an
  index below the length that was never assigned): \<open>filter\<close> skips holes, a spread
  reads them as \<open>undefined\<close>, and both read as \<open>undefined\<close> through an index.
\<close>

record entry =
  amount :: jsnum
  partName :: "string option"
  date :: "string option"

datatype slot = Hole | Undefined | Ent entry

text \<open>\<open>xs[i]\<close>, with \<open>None\<close> for \<open>undefined\<close>.\<close>

definition at :: "slot list \<Rightarrow> nat \<Rightarrow> entry option" where
  "at xs i = (if i < length xs then (case xs ! i of Ent e \<Rightarrow> Some e | _ \<Rightarrow> None) else None)"

text \<open>\<^verbatim>\<open>Number(xs[i]?.amount ?? 0)\<close>, for entries whose amount is a number.\<close>

definition old_amount :: "slot list \<Rightarrow> nat \<Rightarrow> jsnum" where
  "old_amount xs i = (case at xs i of None \<Rightarrow> Num 0 | Some e \<Rightarrow> amount e)"

text \<open>\<open>[...xs]\<close>: a hole becomes \<open>undefined\<close>.\<close>

definition spread :: "slot list \<Rightarrow> slot list" where
  "spread xs = map (\<lambda>x. if x = Hole then Undefined else x) xs"

text \<open>
  \<open>copy[i] = v\<close> on an array: inside the length the slot is replaced; at or beyond
  it the array grows to length \<open>i + 1\<close>, with holes in between.
\<close>

definition array_set :: "slot list \<Rightarrow> nat \<Rightarrow> slot \<Rightarrow> slot list" where
  "array_set xs i v =
     (if i < length xs then xs[i := v] else xs @ replicate (i - length xs) Hole @ [v])"

text \<open>\<^verbatim>\<open>prev.filter((_, i) => i !== idx)\<close>: holes are not visited and not kept.\<close>

definition filter_idx :: "nat \<Rightarrow> slot list \<Rightarrow> slot list" where
  "filter_idx idx xs = map snd (filter (\<lambda>(i, x). x \<noteq> Hole \<and> i \<noteq> idx) (enumerate 0 xs))"

text \<open>
  The sum of the amounts of the entries of a ledger, as an integer: it is the sum of
  the ledger when every amount is finite.
\<close>

fun slot_finite :: "slot \<Rightarrow> bool" where
  "slot_finite (Ent e) = (case amount e of Num n \<Rightarrow> True | _ \<Rightarrow> False)"
| "slot_finite _ = True"

fun slot_amount :: "slot \<Rightarrow> int" where
  "slot_amount (Ent e) = (case amount e of Num n \<Rightarrow> n | _ \<Rightarrow> 0)"
| "slot_amount _ = 0"

definition finite_amounts :: "slot list \<Rightarrow> bool" where
  "finite_amounts xs = list_all slot_finite xs"

definition sum_amounts :: "slot list \<Rightarrow> int" where
  "sum_amounts xs = sum_list (map slot_amount xs)"

subsection \<open>The state of the component\<close>

text \<open>
  The \<open>useState\<close> and \<open>useRef\<close> cells of \<open>App\<close>, and two logs for its effects on
  the outside: the messages passed to \<open>alert\<close> and those passed to
  \<open>console.error\<close>.
\<close>

record app =
  targetSum :: jsnum
  progress :: jsnum
  entries :: "slot list"
  knobValue :: jsnum
  pointerActive :: bool
  lastAngle :: "int option"
  showSettings :: bool
  editIdx :: "nat option"
  editAmount :: string
  editName :: string
  showClearAlert :: bool
  alerts :: "string list"
  console :: "string list"

subsection \<open>Adding an entry\<close>

text \<open>
  \<^verbatim>\<open>
  function addEntry(amount, partName = "") {
      const newAmount = Number(amount);
      if (Number.isNaN(newAmount) || newAmount === 0) { return; }
      const entry = { amount: newAmount,
                      partName: partName ? String(partName) : null,
                      date: new Date().toISOString() };
      setEntries((prev) => [entry, ...prev]);
      setProgress((p) => p + newAmount);
  }\<close>
  The clock is an argument: \<open>now\<close> is what \<open>new Date().toISOString()\<close> returns.
\<close>

definition addEntry :: "jsval \<Rightarrow> string \<Rightarrow> string \<Rightarrow> app \<Rightarrow> app option" where
  "addEntry amt label now s =
     do {
       newAmount \<leftarrow> Number amt;
       if newAmount = NaN \<or> newAmount = Num 0 then Some s
       else Some (s\<lparr>entries :=
                      Ent \<lparr>amount = newAmount,
                           partName = (if label \<noteq> [] then Some label else None),
                           date = Some now\<rparr> # spread (entries s),
                    progress := jadd (progress s) newAmount\<rparr>)
     }"

text \<open>
  \<open>src/App.jsx\<close>:
  \<^verbatim>\<open>
  function addEntry(amount, partName = "") {
    const newAmount = Number(amount || 0);
    if (!newAmount) return;
    const entry = { amount: newAmount, partName: partName || null,
                    date: new Date().toISOString() };
    setEntries((s) => [entry, ...s]);
    setProgress((p) => p + newAmount);
  }\<close>
\<close>

definition addEntry_src :: "jsval \<Rightarrow> string \<Rightarrow> string \<Rightarrow> app \<Rightarrow> app option" where
  "addEntry_src amt label now s =
     do {
       newAmount \<leftarrow> Number (if truthy amt then amt else VNum (Num 0));
       if \<not> truthy (VNum newAmount) then Some s
       else Some (s\<lparr>entries :=
                      Ent \<lparr>amount = newAmount,
                           partName = (if label \<noteq> [] then Some label else None),
                           date = Some now\<rparr> # spread (entries s),
                    progress := jadd (progress s) newAmount\<rparr>)
     }"

subsection \<open>The knob\<close>

text \<open>
  The four quick buttons, each
  \<^verbatim>\<open>setKnobValue((v) => clamp(v - 1000, 0, Math.max(1000, targetSum * 2)))\<close>
  with its own delta.
\<close>

datatype button = Minus1k | Plus1k | Minus10k | Plus10k

text \<open>The upper end of the range, \<^verbatim>\<open>Math.max(1000, targetSum * 2)\<close>.\<close>

definition knob_range :: "app \<Rightarrow> jsnum" where
  "knob_range s = Math_max (Num 1000) (jmul (targetSum s) (Num 2))"

fun quickButton :: "button \<Rightarrow> app \<Rightarrow> app" where
  "quickButton Minus1k s =
     s\<lparr>knobValue := clamp (jsub (knobValue s) (Num 1000)) (Num 0) (knob_range s)\<rparr>"
| "quickButton Plus1k s =
     s\<lparr>knobValue := clamp (jadd (knobValue s) (Num 1000)) (Num 0) (knob_range s)\<rparr>"
| "quickButton Minus10k s =
     s\<lparr>knobValue := clamp (jsub (knobValue s) (Num 10000)) (Num 0) (knob_range s)\<rparr>"
| "quickButton Plus10k s =
     s\<lparr>knobValue := clamp (jadd (knobValue s) (Num 10000)) (Num 0) (knob_range s)\<rparr>"

text \<open>
  The pointer handlers. \<open>clientX\<close> is a whole number of pixels here.
  \<^verbatim>\<open>
  function onPointerDown(e) {
      pointerActive.current = true;
      lastAngle.current = e.clientX;
      ... }
  function onPointerMove(e) {
      if (!pointerActive.current) return;
      const deltaX = e.clientX - lastAngle.current;
      const STEP_SIZE = 10;
      const steps = Math.round(deltaX / STEP_SIZE);
      if (steps !== 0) {
          setKnobValue((v) => clamp(v + steps * 1000, 0, Math.max(1000, targetSum * 2)));
          lastAngle.current = e.clientX;
      }
  }
  function onPointerUp() { pointerActive.current = false; ... }\<close>
  \<open>lastAngle.current\<close> starts as \<open>null\<close>, which a subtraction reads as 0:
  \<open>reference_x\<close> is the position a move is measured from.
\<close>

definition STEP_SIZE :: int where
  "STEP_SIZE = 10"

definition reference_x :: "app \<Rightarrow> int" where
  "reference_x s = (case lastAngle s of None \<Rightarrow> 0 | Some x \<Rightarrow> x)"

definition onPointerDown :: "int \<Rightarrow> app \<Rightarrow> app" where
  "onPointerDown clientX s = s\<lparr>pointerActive := True, lastAngle := Some clientX\<rparr>"

definition onPointerMove :: "int \<Rightarrow> app \<Rightarrow> app option" where
  "onPointerMove clientX s =
     (if \<not> pointerActive s then Some s
      else do {
        deltaX \<leftarrow> isub clientX (reference_x s);
        (let steps = Math_round_div deltaX STEP_SIZE in
         if steps \<noteq> 0 then
           Some (s\<lparr>knobValue :=
                      clamp (jadd (knobValue s) (jmul (Num steps) (Num 1000))) (Num 0)
                        (knob_range s),
                    lastAngle := Some clientX\<rparr>)
         else Some s)
      })"

definition onPointerUp :: "app \<Rightarrow> app" where
  "onPointerUp s = s\<lparr>pointerActive := False\<rparr>"

text \<open>
  \<^verbatim>\<open>
  function commitKnob() {
      addEntry(knobValue, "");
      setKnobValue(1000);
  }\<close>
\<close>

definition commitKnob :: "string \<Rightarrow> app \<Rightarrow> app option" where
  "commitKnob now s =
     do { s1 \<leftarrow> addEntry (VNum (knobValue s)) [] now s; Some (s1\<lparr>knobValue := Num 1000\<rparr>) }"

subsection \<open>Editing and deleting entries\<close>

text \<open>
  \<^verbatim>\<open>
  function startEdit(idx) {
      const entry = entries[idx];
      if (!entry) return;
      setEditIdx(idx);
      setEditAmount(String(entry.amount));
      setEditName(entry.partName || "");
  }
  function cancelEdit() { setEditIdx(null); setEditAmount(""); setEditName(""); }\<close>
  The two inputs of the edited row store what is typed:
  \<^verbatim>\<open>onChange={(ev) => setEditAmount(ev.target.value)}\<close> and the same for
  \<open>setEditName\<close>.
\<close>

definition startEdit :: "nat \<Rightarrow> app \<Rightarrow> app option" where
  "startEdit idx s =
     (case at (entries s) idx of
        None \<Rightarrow> Some s
      | Some e \<Rightarrow> do {
          a \<leftarrow> String_of_num (amount e);
          Some (s\<lparr>editIdx := Some idx, editAmount := a,
                  editName := (case partName e of None \<Rightarrow> [] | Some l \<Rightarrow> l)\<rparr>)
        })"

definition cancelEdit :: "app \<Rightarrow> app" where
  "cancelEdit s = s\<lparr>editIdx := None, editAmount := [], editName := []\<rparr>"

definition setEditAmount :: "string \<Rightarrow> app \<Rightarrow> app" where
  "setEditAmount v s = s\<lparr>editAmount := v\<rparr>"

definition setEditName :: "string \<Rightarrow> app \<Rightarrow> app" where
  "setEditName v s = s\<lparr>editName := v\<rparr>"

text \<open>
  \<^verbatim>\<open>
  function saveEdit() {
      if (editIdx === null) return;
      const parsed = Number(editAmount);
      if (Number.isNaN(parsed)) { alert("Enter a valid numeric amount"); return; }
      setEntries((prev) => {
          const prevEntry = prev[editIdx];
          const updatedEntry = { ...prevEntry, amount: parsed,
                                 partName: editName ? editName.trim() : null };
          const copy = prev.slice();
          copy[editIdx] = updatedEntry;
          return copy;
      });
      setProgress((p) => {
          const old = Number(entries[editIdx]?.amount ?? 0);
          return p - old + parsed;
      });
      cancelEdit();
  }\<close>
  Within one event \<open>prev\<close> and \<open>entries\<close> are the same array.
\<close>

definition saveEdit :: "app \<Rightarrow> app option" where
  "saveEdit s =
     (case editIdx s of
        None \<Rightarrow> Some s
      | Some i \<Rightarrow> do {
          parsed \<leftarrow> StringToNumber (editAmount s);
          if parsed = NaN then Some (s\<lparr>alerts := alerts s @ [''Enter a valid numeric amount'']\<rparr>)
          else
            (let prevEntry = at (entries s) i;
                 updatedEntry =
                   \<lparr>amount = parsed,
                    partName = (if editName s \<noteq> [] then Some (trim (editName s)) else None),
                    date = (case prevEntry of None \<Rightarrow> None | Some e \<Rightarrow> date e)\<rparr>;
                 old = old_amount (entries s) i
             in Some (cancelEdit
                        (s\<lparr>entries := array_set (entries s) i (Ent updatedEntry),
                           progress := jadd (jsub (progress s) old) parsed\<rparr>)))
        })"

text \<open>
  \<^verbatim>\<open>
  function deleteEntry(idx) {
      const ent = entries[idx];
      if (!ent) return;
      if (editIdx === idx) cancelEdit();
      setEntries((prev) => prev.filter((_, i) => i !== idx));
      setProgress((p) => p - Number(ent.amount));
  }\<close>
\<close>

definition deleteEntry :: "nat \<Rightarrow> app \<Rightarrow> app" where
  "deleteEntry idx s =
     (case at (entries s) idx of
        None \<Rightarrow> s
      | Some ent \<Rightarrow>
          (if editIdx s = Some idx then cancelEdit s else s)
            \<lparr>entries := filter_idx idx (entries s),
             progress := jsub (progress s) (amount ent)\<rparr>)"

text \<open>
  \<^verbatim>\<open>
  function clearAllEntries() {
      setEntries([]);
      setProgress(0);
      cancelEdit();
      setShowClearAlert(false);
  }\<close>
  and the Reset button of the settings drawer:
  \<^verbatim>\<open>onClick={() => { setProgress(0); setEntries([]); cancelEdit(); }}\<close>
\<close>

definition clearAllEntries :: "app \<Rightarrow> app" where
  "clearAllEntries s = (cancelEdit (s\<lparr>entries := [], progress := Num 0\<rparr>))\<lparr>showClearAlert := False\<rparr>"

definition resetButton :: "app \<Rightarrow> app" where
  "resetButton s = cancelEdit (s\<lparr>progress := Num 0, entries := []\<rparr>)"

subsection \<open>Settings\<close>

text \<open>
  The target input: \<^verbatim>\<open>onChange={(e) => setTargetSum(Number(e.target.value))}\<close>.
\<close>

definition onTargetChange :: "string \<Rightarrow> app \<Rightarrow> app option" where
  "onTargetChange v s = do { t \<leftarrow> StringToNumber v; Some (s\<lparr>targetSum := t\<rparr>) }"

text \<open>
  The Settings button toggles the drawer; its backdrop and its Done button run
  \<^verbatim>\<open>cancelEdit(); setShowSettings(false);\<close>. The "Clear all" button only opens the
  confirmation, whose second button closes it again.
\<close>

definition toggleSettings :: "app \<Rightarrow> app" where
  "toggleSettings s = s\<lparr>showSettings := \<not> showSettings s\<rparr>"

definition closeSettings :: "app \<Rightarrow> app" where
  "closeSettings s = (cancelEdit s)\<lparr>showSettings := False\<rparr>"

definition askClearAll :: "app \<Rightarrow> app" where
  "askClearAll s = s\<lparr>showClearAlert := True\<rparr>"

definition dismissClearAll :: "app \<Rightarrow> app" where
  "dismissClearAll s = s\<lparr>showClearAlert := False\<rparr>"

subsection \<open>Loading the persisted state\<close>

text \<open>
  \<open>localStorage\<close> maps a key to a string; \<open>getItem\<close> of a missing key is \<open>null\<close>.
  \<^verbatim>\<open>
  const STORAGE_KEYS = { TARGET: "fp_targetSum_v1", PROGRESS: "fp_progress_v1",
                         ENTRIES: "fp_entries_v1" };\<close>
\<close>

type_synonym storage = "string \<Rightarrow> string option"

definition TARGET :: string where
  "TARGET = ''fp_targetSum_v1''"

definition PROGRESS :: string where
  "PROGRESS = ''fp_progress_v1''"

definition ENTRIES :: string where
  "ENTRIES = ''fp_entries_v1''"

text \<open>
  \<open>JSON.parse\<close> belongs to the platform. The loaders take it as an argument: a
  function from the text to the exception it throws or the array it returns, and
  \<open>None\<close> where a model of it does not decide.
\<close>

datatype exn = SyntaxError

type_synonym parser = "string \<Rightarrow> (exn + slot list) option"

text \<open>
  The part of \<open>JSON.parse\<close> that needs no grammar: the text \<open>[]\<close> is the empty
  array, and a text whose first character after JSON white space (SP, TAB, LF, CR)
  cannot start a JSON value, or that has no such character, is a \<open>SyntaxError\<close>.
\<close>

definition JSON_parse :: parser where
  "JSON_parse raw =
     (if raw = ''[]'' then Some (Inr [])
      else (case dropWhile (\<lambda>c. (of_char c :: nat) \<in> {32, 9, 10, 13}) raw of
              [] \<Rightarrow> Some (Inl SyntaxError)
            | c # _ \<Rightarrow>
                if c = CHR 0x22 \<or> c \<in> set ''[{-0123456789tfn'' then None
                else Some (Inl SyntaxError)))"

text \<open>
  The initialisers of the full component:
  \<^verbatim>\<open>
  const [targetSum, setTargetSum] = useState(() => {
      const raw = localStorage.getItem(STORAGE_KEYS.TARGET);
      return raw ? Number(raw) : 100000;
  });
  const [progress, setProgress] = useState(() => {
      const raw = localStorage.getItem(STORAGE_KEYS.PROGRESS);
      return raw ? Number(raw) : 25000;
  });
  const [entries, setEntries] = useState(() => {
      const raw = localStorage.getItem(STORAGE_KEYS.ENTRIES);
      try { return raw ? JSON.parse(raw) : []; }
      catch (err) {
          console.error("Failed parsing entries from localStorage", err);
          return [];
      }
  });\<close>
\<close>

definition load_targetSum :: "storage \<Rightarrow> jsnum option" where
  "load_targetSum st =
     (case st TARGET of
        None \<Rightarrow> Some (Num 100000)
      | Some raw \<Rightarrow> if raw \<noteq> [] then StringToNumber raw else Some (Num 100000))"

definition load_progress :: "storage \<Rightarrow> jsnum option" where
  "load_progress st =
     (case st PROGRESS of
        None \<Rightarrow> Some (Num 25000)
      | Some raw \<Rightarrow> if raw \<noteq> [] then StringToNumber raw else Some (Num 25000))"

text \<open>The entries, and what the initialiser wrote with \<open>console.error\<close>.\<close>

definition load_entries :: "parser \<Rightarrow> storage \<Rightarrow> (slot list \<times> string list) option" where
  "load_entries parse st =
     (case st ENTRIES of
        None \<Rightarrow> Some ([], [])
      | Some raw \<Rightarrow>
          if raw \<noteq> [] then
            (case parse raw of
               None \<Rightarrow> None
             | Some (Inr es) \<Rightarrow> Some (es, [])
             | Some (Inl err) \<Rightarrow> Some ([], [''Failed parsing entries from localStorage'']))
          else Some ([], []))"

definition App_init :: "parser \<Rightarrow> storage \<Rightarrow> app option" where
  "App_init parse st =
     do {
       t \<leftarrow> load_targetSum st;
       p \<leftarrow> load_progress st;
       el \<leftarrow> load_entries parse st;
       Some \<lparr>targetSum = t, progress = p, entries = fst el, knobValue = Num 1000,
             pointerActive = False, lastAngle = None, showSettings = False,
             editIdx = None, editAmount = [], editName = [], showClearAlert = False,
             alerts = [], console = snd el\<rparr>
     }"

text \<open>
  The initialisers of \<open>src/App.jsx\<close>:
  \<^verbatim>\<open>
  useState(() => Number(localStorage.getItem(STORAGE_KEYS.TARGET)) || 100000);
  useState(() => Number(localStorage.getItem(STORAGE_KEYS.PROGRESS)) || 25000);
  useState(() => JSON.parse(localStorage.getItem(STORAGE_KEYS.ENTRIES) || "[]"));\<close>
  Nothing catches what \<open>JSON.parse\<close> throws: the result is the exception (\<open>Inl\<close>)
  or the state. This component has no \<open>showClearAlert\<close> cell; the field stays
  \<open>False\<close>.
\<close>

definition getItem :: "storage \<Rightarrow> string \<Rightarrow> jsval" where
  "getItem st k = (case st k of None \<Rightarrow> VNull | Some raw \<Rightarrow> VStr raw)"

definition load_targetSum_src :: "storage \<Rightarrow> jsnum option" where
  "load_targetSum_src st =
     do { n \<leftarrow> Number (getItem st TARGET); Some (if truthy (VNum n) then n else Num 100000) }"

definition load_progress_src :: "storage \<Rightarrow> jsnum option" where
  "load_progress_src st =
     do { n \<leftarrow> Number (getItem st PROGRESS); Some (if truthy (VNum n) then n else Num 25000) }"

definition load_entries_src :: "parser \<Rightarrow> storage \<Rightarrow> (exn + slot list) option" where
  "load_entries_src parse st =
     parse (case getItem st ENTRIES of VStr raw \<Rightarrow> if raw \<noteq> [] then raw else ''[]'' | _ \<Rightarrow> ''[]'')"

definition App_init_src :: "parser \<Rightarrow> storage \<Rightarrow> (exn + app) option" where
  "App_init_src parse st =
     do {
       t \<leftarrow> load_targetSum_src st;
       p \<leftarrow> load_progress_src st;
       r \<leftarrow> load_entries_src parse st;
       Some (case r of
               Inl err \<Rightarrow> Inl err
             | Inr es \<Rightarrow>
                 Inr \<lparr>targetSum = t, progress = p, entries = es, knobValue = Num 1000,
                      pointerActive = False, lastAngle = None, showSettings = False,
                      editIdx = None, editAmount = [], editName = [], showClearAlert = False,
                      alerts = [], console = []\<rparr>)
     }"

subsection \<open>Sequences of events\<close>

text \<open>
  The events that leave the baseline of the ledger alone: every handler but
  \<open>clearAllEntries\<close> and the Reset button. \<open>run\<close> applies a sequence of them,
  each to the state the one before left.
\<close>

datatype op =
    AddEntry jsval string string
  | CommitKnob string
  | StartEdit nat
  | SetEditAmount string
  | SetEditName string
  | CancelEdit
  | SaveEdit
  | DeleteEntry nat
  | QuickButton button
  | PointerDown int
  | PointerMove int
  | PointerUp
  | TargetChange string
  | ToggleSettings
  | CloseSettings
  | AskClearAll
  | DismissClearAll

fun step :: "op \<Rightarrow> app \<Rightarrow> app option" where
  "step (AddEntry a l now) s = addEntry a l now s"
| "step (CommitKnob now) s = commitKnob now s"
| "step (StartEdit i) s = startEdit i s"
| "step (SetEditAmount v) s = Some (setEditAmount v s)"
| "step (SetEditName v) s = Some (setEditName v s)"
| "step CancelEdit s = Some (cancelEdit s)"
| "step SaveEdit s = saveEdit s"
| "step (DeleteEntry i) s = Some (deleteEntry i s)"
| "step (QuickButton b) s = Some (quickButton b s)"
| "step (PointerDown x) s = Some (onPointerDown x s)"
| "step (PointerMove x) s = onPointerMove x s"
| "step PointerUp s = Some (onPointerUp s)"
| "step (TargetChange v) s = onTargetChange v s"
| "step ToggleSettings s = Some (toggleSettings s)"
| "step CloseSettings s = Some (closeSettings s)"
| "step AskClearAll s = Some (askClearAll s)"
| "step DismissClearAll s = Some (dismissClearAll s)"

fun run :: "op list \<Rightarrow> app \<Rightarrow> app option" where
  "run [] s = Some s"
| "run (x # xs) s = (case step x s of None \<Rightarrow> None | Some s' \<Rightarrow> run xs s')"

text \<open>
  The ledger invariant with baseline \<open>b\<close>: every amount is finite, and progress is
  \<open>b\<close> plus the sum of the amounts of the entries.
\<close>

definition ledger_inv :: "int \<Rightarrow> app \<Rightarrow> bool" where
  "ledger_inv b s \<longleftrightarrow>
     finite_amounts (entries s) \<and> progress s = Num (b + sum_amounts (entries s))"

text \<open>
  An event is exact in a state when every number it reads is in the model (no fraction
  was typed, no digits of a large amount are asked for) and every sum or difference it
  forms for progress is a safe integer, so that no rounding takes place. The
  conditions are on the input and the state before the event.
\<close>

definition exact_add :: "jsnum \<Rightarrow> jsnum \<Rightarrow> bool" where
  "exact_add x y = (case (x, y) of (Num a, Num b) \<Rightarrow> safe (a + b) | _ \<Rightarrow> False)"

definition exact_sub :: "jsnum \<Rightarrow> jsnum \<Rightarrow> bool" where
  "exact_sub x y = (case (x, y) of (Num a, Num b) \<Rightarrow> safe (a - b) | _ \<Rightarrow> False)"

fun exact_op :: "op \<Rightarrow> app \<Rightarrow> bool" where
  "exact_op (AddEntry a l now) s =
     (case Number a of
        None \<Rightarrow> False
      | Some x \<Rightarrow> x = NaN \<or> x = Num 0 \<or> exact_add (progress s) x)"
| "exact_op (CommitKnob now) s =
     (knobValue s = NaN \<or> knobValue s = Num 0 \<or> exact_add (progress s) (knobValue s))"
| "exact_op (StartEdit i) s =
     (case at (entries s) i of None \<Rightarrow> True | Some e \<Rightarrow> String_of_num (amount e) \<noteq> None)"
| "exact_op SaveEdit s =
     (case editIdx s of
        None \<Rightarrow> True
      | Some i \<Rightarrow>
          (case StringToNumber (editAmount s) of
             None \<Rightarrow> False
           | Some x \<Rightarrow>
               x = NaN \<or>
               exact_sub (progress s) (old_amount (entries s) i) \<and>
               exact_add (jsub (progress s) (old_amount (entries s) i)) x))"
| "exact_op (DeleteEntry i) s =
     (case at (entries s) i of None \<Rightarrow> True | Some e \<Rightarrow> exact_sub (progress s) (amount e))"
| "exact_op (PointerMove x) s =
     (if pointerActive s then safe x \<and> safe (reference_x s) \<and> safe (x - reference_x s) else True)"
| "exact_op (TargetChange v) s = (StringToNumber v \<noteq> None)"
| "exact_op _ s = True"

text \<open>
  A sequence is exact from a state when each of its events is exact in the state the
  events before it lead to.
\<close>

fun exact_run :: "op list \<Rightarrow> app \<Rightarrow> bool" where
  "exact_run [] s = True"
| "exact_run (x # xs) s =
     (exact_op x s \<and> (case step x s of None \<Rightarrow> True | Some s' \<Rightarrow> exact_run xs s'))"

text \<open>
  The pending value is in range: between 0 and the upper end
  \<open>Math.max(1000, targetSum * 2)\<close>, which for a target \<open>t\<close> with \<open>2 * t\<close> safe is
  \<open>max(1000, 2 * t)\<close>.
\<close>

definition knob_in_range :: "app \<Rightarrow> bool" where
  "knob_in_range s \<longleftrightarrow> jle (Num 0) (knobValue s) \<and> jle (knobValue s) (knob_range s)"

text \<open>The state of a first launch: nothing persisted.\<close>

definition default_state :: app where
  "default_state =
     \<lparr>targetSum = Num 100000, progress = Num 25000, entries = [], knobValue = Num 1000,
      pointerActive = False, lastAngle = None, showSettings = False,
      editIdx = None, editAmount = [], editName = [], showClearAlert = False,
      alerts = [], console = []\<rparr>"

text \<open>
  The spec's \<open>editEntry(index, newAmount, newLabel)\<close> is, in the component, the Edit
  button of a row, typing into its two inputs, and Save.
\<close>

definition editEntry :: "nat \<Rightarrow> string \<Rightarrow> string \<Rightarrow> op list" where
  "editEntry idx newAmount newLabel =
     [StartEdit idx, SetEditAmount newAmount, SetEditName newLabel, SaveEdit]"

section \<open>Properties\<close>

subsection \<open>Rounding to a double\<close>

text \<open>A safe integer is a double: sums and differences that stay safe are exact.\<close>

lemma binade_small: "m < 9007199254740992 \<Longrightarrow> binade m = 0"
  by (subst binade.simps) simp

lemma round_even_small: "0 \<le> m \<Longrightarrow> m < 9007199254740992 \<Longrightarrow> round_even m = m"
  by (simp add: round_even_def binade_small)

lemma to_double_safe: "safe n \<Longrightarrow> to_double n = Num n"
proof -
  assume "safe n"
  then have a: "0 \<le> \<bar>n\<bar>" "\<bar>n\<bar> < 9007199254740992" unfolding safe_def by linarith+
  from round_even_small [OF a] binade_small [OF a(2)] show ?thesis
    by (simp add: to_double_def Let_def)
qed

lemma jadd_exact:
  "exact_add x y \<Longrightarrow> \<exists>a b. x = Num a \<and> y = Num b \<and> jadd x y = Num (a + b)"
  by (cases x; cases y) (simp_all add: exact_add_def to_double_safe)

lemma jsub_exact:
  "exact_sub x y \<Longrightarrow> \<exists>a b. x = Num a \<and> y = Num b \<and> jsub x y = Num (a - b)"
  by (cases x; cases y) (simp_all add: exact_sub_def jsub_def to_double_safe)

text \<open>
  Rounding never gives \<open>NaN\<close>, and gives a finite double below \<open>2^1023\<close>.
\<close>

lemma binade_le: "m < 9007199254740992 * 2 ^ k \<Longrightarrow> binade m \<le> k"
proof (induction k arbitrary: m)
  case 0
  then show ?case by (simp add: binade_small)
next
  case (Suc k)
  show ?case
  proof (cases "m < 9007199254740992")
    case True
    then show ?thesis by (simp add: binade_small)
  next
    case False
    from Suc.prems have "m div 2 < 9007199254740992 * 2 ^ k" by simp
    from Suc.IH [OF this] False show ?thesis by (subst binade.simps) simp
  qed
qed

lemma binade_pow_le: "0 < m \<Longrightarrow> 2 ^ binade m \<le> m"
proof (induction m rule: binade.induct)
  case (1 m)
  show ?case
  proof (cases "m < 9007199254740992")
    case True
    with "1.prems" show ?thesis by (simp add: binade_small)
  next
    case False
    then have "0 < m div 2" by simp
    from "1.IH" [OF False this] have "2 * 2 ^ binade (m div 2) \<le> 2 * (m div 2)" by simp
    also have "\<dots> \<le> m" by simp
    finally show ?thesis using False by (subst binade.simps) simp
  qed
qed

lemma round_even_upper: "0 \<le> m \<Longrightarrow> round_even m \<le> 2 * m"
proof (cases "m = 0")
  case True
  then show ?thesis by (simp add: round_even_def binade_small)
next
  case False
  assume "0 \<le> m"
  with False have p: "0 < m" by simp
  define q :: int where "q = 2 ^ binade m"
  have q: "0 < q" "q \<le> m" using binade_pow_le [OF p] by (simp_all add: q_def)
  have "0 \<le> m mod q" using q(1) by simp
  moreover have "m div q * q + m mod q = m" by simp
  ultimately have "m div q * q \<le> m" by linarith
  then have "m div q * q \<le> 2 * m" "(m div q + 1) * q \<le> 2 * m"
    using q p by (simp_all add: algebra_simps)
  then show ?thesis by (simp add: round_even_def Let_def q_def)
qed

lemma to_double_not_NaN [simp]: "to_double n \<noteq> NaN"
  by (simp add: to_double_def Let_def)

lemma to_double_finite:
  assumes "\<bar>n\<bar> < 9007199254740992 * 2 ^ k" and "k \<le> 970"
  shows "\<exists>m. to_double n = Num m"
proof -
  from round_even_upper [of "\<bar>n\<bar>"] assms(1)
  have "round_even \<bar>n\<bar> < 9007199254740992 * 2 ^ Suc k" by simp
  from binade_le [OF this] assms(2) have "\<not> 971 < binade (round_even \<bar>n\<bar>)" by simp
  then show ?thesis by (simp add: to_double_def Let_def)
qed

lemma jadd_Num_not_NaN: "x \<noteq> NaN \<Longrightarrow> jadd x (Num d) \<noteq> NaN"
  by (cases x) simp_all

lemma jsub_Num_not_NaN: "x \<noteq> NaN \<Longrightarrow> jsub x (Num d) \<noteq> NaN"
  by (cases x) (simp_all add: jsub_def)

lemma jadd_NaN [simp]: "jadd NaN x = NaN" "jadd x NaN = NaN"
  by (cases x; simp)+

lemma jsub_NaN [simp]: "jsub NaN x = NaN"
  by (simp add: jsub_def)

lemma jmul_two_not_NaN: "x \<noteq> NaN \<Longrightarrow> jmul x (Num 2) \<noteq> NaN"
  by (cases x) simp_all

lemma jadd_finite_not_NaN: "x \<noteq> NaN \<Longrightarrow> jadd x (Num m) \<noteq> NaN"
  by (rule jadd_Num_not_NaN)

subsection \<open>The sum of a ledger under the array operations\<close>

lemma sum_amounts_Nil: "sum_amounts [] = 0"
  by (simp add: sum_amounts_def)

lemma sum_amounts_Cons: "sum_amounts (x # xs) = slot_amount x + sum_amounts xs"
  by (simp add: sum_amounts_def)

lemma sum_amounts_append: "sum_amounts (xs @ ys) = sum_amounts xs + sum_amounts ys"
  by (simp add: sum_amounts_def)

lemma sum_amounts_spread: "sum_amounts (spread xs) = sum_amounts xs"
  by (induction xs) (auto simp: sum_amounts_def spread_def)

lemma sum_amounts_replicate_Hole: "sum_amounts (replicate k Hole) = 0"
  by (induction k) (auto simp: sum_amounts_def)

lemma sum_amounts_update:
  "i < length xs \<Longrightarrow>
   sum_amounts (xs[i := v]) = sum_amounts xs - slot_amount (xs ! i) + slot_amount v"
proof (induction xs arbitrary: i)
  case Nil
  then show ?case by simp
next
  case (Cons x xs)
  then show ?case by (cases i) (auto simp: sum_amounts_Cons)
qed

text \<open>What index \<open>i\<close> contributes to the sum.\<close>

lemma slot_amount_nth:
  "i < length xs \<Longrightarrow> slot_finite (xs ! i) \<Longrightarrow> old_amount xs i = Num (slot_amount (xs ! i))"
  by (cases "xs ! i") (auto simp: old_amount_def at_def split: jsnum.splits)

lemma old_amount_beyond: "\<not> i < length xs \<Longrightarrow> old_amount xs i = Num 0"
  by (simp add: old_amount_def at_def)

lemma finite_amounts_nth: "finite_amounts xs \<Longrightarrow> i < length xs \<Longrightarrow> slot_finite (xs ! i)"
  by (simp add: finite_amounts_def list_all_length)

lemma sum_amounts_array_set:
  assumes "finite_amounts xs" and "old_amount xs i = Num o'"
  shows "sum_amounts (array_set xs i (Ent e)) = sum_amounts xs - o' + slot_amount (Ent e)"
proof (cases "i < length xs")
  case True
  with assms slot_amount_nth [OF True finite_amounts_nth [OF assms(1) True]]
  show ?thesis by (simp add: array_set_def sum_amounts_update)
next
  case False
  with assms old_amount_beyond [OF False] show ?thesis
    by (simp add: array_set_def sum_amounts_append sum_amounts_replicate_Hole sum_amounts_Cons
        sum_amounts_Nil)
qed

lemma finite_amounts_array_set:
  "finite_amounts xs \<Longrightarrow> slot_finite v \<Longrightarrow> finite_amounts (array_set xs i v)"
  by (auto simp: finite_amounts_def array_set_def list_all_iff dest: set_update_subset_insert [THEN subsetD])

lemma finite_amounts_Cons: "finite_amounts (x # xs) = (slot_finite x \<and> finite_amounts xs)"
  by (simp add: finite_amounts_def)

lemma finite_amounts_spread: "finite_amounts (spread xs) = finite_amounts xs"
  by (induction xs) (auto simp: finite_amounts_def spread_def)

lemma finite_amounts_filter_idx: "finite_amounts xs \<Longrightarrow> finite_amounts (filter_idx idx xs)"
  by (auto simp: finite_amounts_def filter_idx_def list_all_iff in_set_enumerate_eq)

lemma sum_filter_enumerate:
  "sum_list (map slot_amount
     (map snd (filter (\<lambda>(i, x). x \<noteq> Hole \<and> i \<noteq> idx) (enumerate n xs)))) =
   sum_amounts xs - (if n \<le> idx \<and> idx < n + length xs then slot_amount (xs ! (idx - n)) else 0)"
proof (induction xs arbitrary: n)
  case Nil
  then show ?case by (simp add: sum_amounts_def)
next
  case (Cons x xs)
  show ?case
  proof (cases "idx = n")
    case True
    then show ?thesis using Cons [of "Suc n"] by (simp add: sum_amounts_Cons)
  next
    case False
    then show ?thesis using Cons [of "Suc n"]
      by (cases x) (auto simp: sum_amounts_Cons Suc_diff_le)
  qed
qed

lemma sum_amounts_filter_idx:
  assumes "finite_amounts xs" and "at xs idx = Some e" and "amount e = Num a"
  shows "sum_amounts (filter_idx idx xs) = sum_amounts xs - a"
proof -
  from assms(2) have i: "idx < length xs" and x: "xs ! idx = Ent e"
    by (auto simp: at_def split: if_splits slot.splits)
  from sum_filter_enumerate [of idx 0 xs] i x assms(3) show ?thesis
    by (simp add: filter_idx_def sum_amounts_def)
qed

lemma at_finite: "finite_amounts xs \<Longrightarrow> at xs i = Some e \<Longrightarrow> \<exists>a. amount e = Num a"
proof -
  assume f: "finite_amounts xs" and a: "at xs i = Some e"
  from a have i: "i < length xs" and x: "xs ! i = Ent e"
    by (auto simp: at_def split: if_splits slot.splits)
  from finite_amounts_nth [OF f i] x show ?thesis by (cases "amount e") auto
qed

subsection \<open>Each exact event keeps the ledger invariant\<close>

lemma ledger_inv_progress: "ledger_inv b s \<Longrightarrow> progress s = Num (b + sum_amounts (entries s))"
  by (simp add: ledger_inv_def)

lemma addEntry_exact:
  assumes i: "ledger_inv b s" and n: "Number a = Some x"
    and e: "x = NaN \<or> x = Num 0 \<or> exact_add (progress s) x"
  shows "\<exists>s'. addEntry a l now s = Some s' \<and> ledger_inv b s'"
proof (cases "x = NaN \<or> x = Num 0")
  case True
  with i n show ?thesis by (auto simp: addEntry_def)
next
  case False
  with e have "exact_add (progress s) x" by blast
  from jadd_exact [OF this] i obtain m where x: "x = Num m"
    and j: "jadd (progress s) x = Num (b + sum_amounts (entries s) + m)"
    by (auto simp: ledger_inv_def)
  from False n x j i show ?thesis
    by (simp add: addEntry_def ledger_inv_def sum_amounts_Cons sum_amounts_spread
        finite_amounts_spread finite_amounts_Cons)
qed

lemma commitKnob_exact:
  assumes i: "ledger_inv b s"
    and e: "knobValue s = NaN \<or> knobValue s = Num 0 \<or> exact_add (progress s) (knobValue s)"
  shows "\<exists>s'. commitKnob now s = Some s' \<and> ledger_inv b s'"
proof -
  have "Number (VNum (knobValue s)) = Some (knobValue s)" by simp
  from addEntry_exact [OF i this e, of "[]" now] obtain s1
    where "addEntry (VNum (knobValue s)) [] now s = Some s1" and "ledger_inv b s1" by blast
  then show ?thesis by (simp add: commitKnob_def ledger_inv_def)
qed

lemma startEdit_exact:
  assumes i: "ledger_inv b s"
    and e: "case at (entries s) k of None \<Rightarrow> True | Some e \<Rightarrow> String_of_num (amount e) \<noteq> None"
  shows "\<exists>s'. startEdit k s = Some s' \<and> ledger_inv b s'"
  using assms
  by (auto simp: startEdit_def ledger_inv_def split: option.splits)

lemma saveEdit_exact:
  assumes i: "ledger_inv b s" and e: "exact_op SaveEdit s"
  shows "\<exists>s'. saveEdit s = Some s' \<and> ledger_inv b s'"
proof (cases "editIdx s")
  case None
  with i show ?thesis by (simp add: saveEdit_def)
next
  case (Some k)
  with e obtain x where p: "StringToNumber (editAmount s) = Some x"
    and c: "x = NaN \<or>
            exact_sub (progress s) (old_amount (entries s) k) \<and>
            exact_add (jsub (progress s) (old_amount (entries s) k)) x"
    by (auto split: option.splits)
  show ?thesis
  proof (cases "x = NaN")
    case True
    with Some p i show ?thesis by (simp add: saveEdit_def ledger_inv_def)
  next
    case False
    with c have c1: "exact_sub (progress s) (old_amount (entries s) k)"
      and c2: "exact_add (jsub (progress s) (old_amount (entries s) k)) x" by blast+
    from jsub_exact [OF c1] i obtain o' where o': "old_amount (entries s) k = Num o'"
      and d: "jsub (progress s) (old_amount (entries s) k) = Num (b + sum_amounts (entries s) - o')"
      by (auto simp: ledger_inv_def)
    from jadd_exact [OF c2] d obtain m where x: "x = Num m"
      and j: "jadd (jsub (progress s) (old_amount (entries s) k)) x =
              Num (b + sum_amounts (entries s) - o' + m)"
      by auto
    from i have f: "finite_amounts (entries s)" by (simp add: ledger_inv_def)
    let ?e = "\<lparr>amount = x,
               partName = (if editName s \<noteq> [] then Some (trim (editName s)) else None),
               date = (case at (entries s) k of None \<Rightarrow> None | Some e \<Rightarrow> date e)\<rparr>"
    have sf: "slot_finite (Ent ?e)" using x by simp
    from sum_amounts_array_set [OF f o', of ?e] x
    have su: "sum_amounts (array_set (entries s) k (Ent ?e)) = sum_amounts (entries s) - o' + m"
      by simp
    from Some p False j su finite_amounts_array_set [OF f sf, of k] show ?thesis
      by (simp add: saveEdit_def Let_def cancelEdit_def ledger_inv_def)
  qed
qed

lemma deleteEntry_exact:
  assumes i: "ledger_inv b s"
    and e: "case at (entries s) k of None \<Rightarrow> True | Some e \<Rightarrow> exact_sub (progress s) (amount e)"
  shows "ledger_inv b (deleteEntry k s)"
proof (cases "at (entries s) k")
  case None
  with i show ?thesis by (simp add: deleteEntry_def)
next
  case (Some ent)
  with e have "exact_sub (progress s) (amount ent)" by simp
  from jsub_exact [OF this] i obtain a where a: "amount ent = Num a"
    and d: "jsub (progress s) (amount ent) = Num (b + sum_amounts (entries s) - a)"
    by (auto simp: ledger_inv_def)
  from i have f: "finite_amounts (entries s)" by (simp add: ledger_inv_def)
  from Some d sum_amounts_filter_idx [OF f Some a] finite_amounts_filter_idx [OF f, of k]
  show ?thesis
    by (simp add: deleteEntry_def cancelEdit_def ledger_inv_def)
qed

lemma onPointerMove_defined:
  "safe x \<Longrightarrow> safe (reference_x s) \<Longrightarrow> safe (x - reference_x s) \<Longrightarrow>
   \<exists>s'. onPointerMove x s = Some s'"
  by (simp add: onPointerMove_def isub_def Let_def)

lemma onPointerMove_ledger:
  "onPointerMove x s = Some s' \<Longrightarrow> entries s' = entries s \<and> progress s' = progress s"
  by (auto simp: onPointerMove_def Let_def split: if_splits Option.bind_splits)

lemma step_exact:
  assumes i: "ledger_inv b s" and e: "exact_op x s"
  shows "\<exists>s'. step x s = Some s' \<and> ledger_inv b s'"
proof (cases x)
  case (AddEntry a l now)
  with e obtain y where "Number a = Some y"
    and "y = NaN \<or> y = Num 0 \<or> exact_add (progress s) y"
    by (auto split: option.splits)
  from addEntry_exact [OF i this] AddEntry show ?thesis by simp
next
  case (CommitKnob now)
  with e commitKnob_exact [OF i] show ?thesis by simp
next
  case (StartEdit k)
  with e startEdit_exact [OF i] show ?thesis by simp
next
  case (SetEditAmount v)
  with i show ?thesis by (simp add: ledger_inv_def setEditAmount_def)
next
  case (SetEditName v)
  with i show ?thesis by (simp add: ledger_inv_def setEditName_def)
next
  case CancelEdit
  with i show ?thesis by (simp add: ledger_inv_def cancelEdit_def)
next
  case SaveEdit
  with e saveEdit_exact [OF i] show ?thesis by simp
next
  case (DeleteEntry k)
  with e deleteEntry_exact [OF i] show ?thesis by simp
next
  case (QuickButton k)
  with i show ?thesis by (cases k) (simp_all add: ledger_inv_def)
next
  case (PointerDown y)
  with i show ?thesis by (simp add: ledger_inv_def onPointerDown_def)
next
  case (PointerMove y)
  show ?thesis
  proof (cases "pointerActive s")
    case False
    with PointerMove i show ?thesis by (simp add: onPointerMove_def)
  next
    case True
    with PointerMove e onPointerMove_defined [of y s] obtain s'
      where s': "onPointerMove y s = Some s'" by auto
    from onPointerMove_ledger [OF s'] i s' PointerMove show ?thesis
      by (simp add: ledger_inv_def)
  qed
next
  case PointerUp
  with i show ?thesis by (simp add: ledger_inv_def onPointerUp_def)
next
  case (TargetChange v)
  with e i show ?thesis by (auto simp: ledger_inv_def onTargetChange_def)
next
  case ToggleSettings
  with i show ?thesis by (simp add: ledger_inv_def toggleSettings_def)
next
  case CloseSettings
  with i show ?thesis by (simp add: ledger_inv_def closeSettings_def cancelEdit_def)
next
  case AskClearAll
  with i show ?thesis by (simp add: ledger_inv_def askClearAll_def)
next
  case DismissClearAll
  with i show ?thesis by (simp add: ledger_inv_def dismissClearAll_def)
qed

lemma run_exact:
  "ledger_inv b s \<Longrightarrow> exact_run ops s \<Longrightarrow> \<exists>s'. run ops s = Some s' \<and> ledger_inv b s'"
proof (induction ops arbitrary: s)
  case Nil
  then show ?case by simp
next
  case (Cons x xs)
  from Cons.prems(2) have e: "exact_op x s" by simp
  from step_exact [OF Cons.prems(1) e] obtain s1
    where s1: "step x s = Some s1" and i1: "ledger_inv b s1" by blast
  from Cons.prems(2) s1 have "exact_run xs s1" by simp
  from Cons.IH [OF i1 this] s1 show ?case by simp
qed

text \<open>A sequence that is exact is exact through every prefix.\<close>

lemma exact_run_take: "exact_run ops s \<Longrightarrow> exact_run (take k ops) s"
proof (induction ops arbitrary: s k)
  case Nil
  then show ?case by simp
next
  case (Cons x xs)
  show ?case
  proof (cases k)
    case 0
    then show ?thesis by simp
  next
    case (Suc j)
    with Cons show ?thesis by (auto split: option.splits)
  qed
qed

lemma App_init_default: "App_init parse (\<lambda>k. None) = Some default_state"
  by (simp add: App_init_def load_targetSum_def load_progress_def load_entries_def
      default_state_def)

subsection \<open>The two versions of \<open>addEntry\<close> agree\<close>

lemma Number_falsy: "\<not> truthy a \<Longrightarrow> Number a = Some NaN \<or> Number a = Some (Num 0)"
  by (cases a rule: truthy.cases) (auto simp: StringToNumber_def trim_def)

lemma addEntry_src_eq:
  assumes "Number a = Some x"
  shows "addEntry_src a l now s = addEntry a l now s"
proof (cases "truthy a")
  case True
  then show ?thesis by (simp add: addEntry_src_def addEntry_def assms)
next
  case False
  from Number_falsy [OF False] assms have "x = NaN \<or> x = Num 0" by auto
  with False show ?thesis
    by (auto simp: addEntry_src_def addEntry_def assms)
qed

subsection \<open>What a knob event computes\<close>

lemma knob_range_ge: "targetSum s \<noteq> NaN \<Longrightarrow> knob_range s \<noteq> NaN \<and> jle (Num 0) (knob_range s)"
  using jmul_two_not_NaN [of "targetSum s"]
  by (cases "jmul (targetSum s) (Num 2)") (auto simp: knob_range_def Math_max_def)

lemma knob_range_Num:
  "targetSum s = Num t \<Longrightarrow> safe (2 * t) \<Longrightarrow> knob_range s = Num (max 1000 (2 * t))"
  by (auto simp: knob_range_def Math_max_def to_double_safe mult.commute max_def)

lemma clamp_in_range:
  "x \<noteq> NaN \<Longrightarrow> hi \<noteq> NaN \<Longrightarrow> jle (Num 0) hi \<Longrightarrow>
   jle (Num 0) (clamp x (Num 0) hi) \<and> jle (clamp x (Num 0) hi) hi"
  by (cases x; cases hi) (auto simp: clamp_def Math_max_def Math_min_def)

lemma clamp_NaN [simp]: "clamp NaN a b = NaN"
  by (simp add: clamp_def Math_max_def Math_min_def)

lemma knob_in_range_clamp:
  "targetSum s \<noteq> NaN \<Longrightarrow> x \<noteq> NaN \<Longrightarrow>
   knob_in_range (s\<lparr>knobValue := clamp x (Num 0) (knob_range s), lastAngle := a\<rparr>) \<and>
   knob_in_range (s\<lparr>knobValue := clamp x (Num 0) (knob_range s)\<rparr>)"
  using knob_range_ge [of s] clamp_in_range [of x "knob_range s"]
  by (simp add: knob_in_range_def knob_range_def)

lemma quickButton_in_range:
  "targetSum s \<noteq> NaN \<Longrightarrow> knobValue s \<noteq> NaN \<Longrightarrow> knob_in_range (quickButton b s)"
  by (cases b) (simp_all add: knob_in_range_clamp jadd_Num_not_NaN jsub_Num_not_NaN)

lemma quickButton_NaN: "knobValue s = NaN \<Longrightarrow> knobValue (quickButton b s) = NaN"
  by (cases b) simp_all

lemma Math_round_div_bound:
  assumes "safe d"
  shows "\<bar>Math_round_div d STEP_SIZE * 1000\<bar> < 9007199254740992 * 2 ^ 10"
proof -
  from assms have d: "- 9007199254740991 \<le> d" "d \<le> 9007199254740991" by (simp_all add: safe_def)
  from d have "(2 * d + 10) div 20 \<le> 9007199254740992" by linarith
  moreover from d have "- 9007199254740992 \<le> (2 * d + 10) div 20" by linarith
  ultimately show ?thesis by (simp add: Math_round_div_def STEP_SIZE_def)
qed

lemma steps_finite:
  "safe d \<Longrightarrow> \<exists>m. jmul (Num (Math_round_div d STEP_SIZE)) (Num 1000) = Num m"
  using to_double_finite [OF Math_round_div_bound, of d] by simp

lemma onPointerMove_result:
  assumes "pointerActive s" and "onPointerMove x s = Some s'"
  shows "safe (x - reference_x s) \<and>
         (Math_round_div (x - reference_x s) STEP_SIZE = 0 \<longrightarrow> s' = s) \<and>
         (Math_round_div (x - reference_x s) STEP_SIZE \<noteq> 0 \<longrightarrow>
            s' = s\<lparr>knobValue :=
                     clamp (jadd (knobValue s)
                              (jmul (Num (Math_round_div (x - reference_x s) STEP_SIZE)) (Num 1000)))
                       (Num 0) (knob_range s),
                   lastAngle := Some x\<rparr>)"
  using assms
  by (auto simp: onPointerMove_def isub_def Let_def split: Option.bind_splits if_splits)

lemma onPointerMove_in_range:
  assumes t: "targetSum s \<noteq> NaN" and k: "knobValue s \<noteq> NaN" and m: "onPointerMove x s = Some s'"
  shows "s' = s \<or> knob_in_range s'"
proof (cases "pointerActive s")
  case False
  with m show ?thesis by (simp add: onPointerMove_def)
next
  case True
  from onPointerMove_result [OF True m] have d: "safe (x - reference_x s)"
    and r: "Math_round_div (x - reference_x s) STEP_SIZE = 0 \<longrightarrow> s' = s"
    and u: "Math_round_div (x - reference_x s) STEP_SIZE \<noteq> 0 \<longrightarrow>
            s' = s\<lparr>knobValue :=
                     clamp (jadd (knobValue s)
                              (jmul (Num (Math_round_div (x - reference_x s) STEP_SIZE)) (Num 1000)))
                       (Num 0) (knob_range s),
                   lastAngle := Some x\<rparr>"
    by blast+
  from steps_finite [OF d] obtain j
    where j: "jmul (Num (Math_round_div (x - reference_x s) STEP_SIZE)) (Num 1000) = Num j" by blast
  from jadd_Num_not_NaN [OF k, of j] knob_in_range_clamp [OF t, of "jadd (knobValue s) (Num j)" "Some x"]
  have "knob_in_range (s\<lparr>knobValue := clamp (jadd (knobValue s) (Num j)) (Num 0) (knob_range s),
                         lastAngle := Some x\<rparr>)" by blast
  with r u j show ?thesis
    by (cases "Math_round_div (x - reference_x s) STEP_SIZE = 0") auto
qed

lemma onPointerMove_idle:
  "\<not> pointerActive s \<Longrightarrow> onPointerMove x s = Some s"
  by (simp add: onPointerMove_def)

lemma onPointerMove_adjust:
  assumes "pointerActive s" and "safe x" and "safe (reference_x s)" and "safe (x - reference_x s)"
  shows "onPointerMove x s =
           Some (if Math_round_div (x - reference_x s) STEP_SIZE \<noteq> 0
                 then s\<lparr>knobValue :=
                          clamp (jadd (knobValue s)
                                   (jmul (Num (Math_round_div (x - reference_x s) STEP_SIZE))
                                      (Num 1000)))
                            (Num 0) (knob_range s),
                        lastAngle := Some x\<rparr>
                 else s)"
  using assms by (simp add: onPointerMove_def isub_def Let_def)

lemma clamp_Num: "clamp (Num v) (Num lo) (Num hi) = Num (max lo (min hi v))"
  by (auto simp: clamp_def Math_max_def Math_min_def)

lemma quickButton_Num:
  assumes "knobValue s = Num v" and "targetSum s = Num t" and "safe (2 * t)"
    and "safe (v - 10000)" and "safe (v + 10000)"
  shows "knobValue (quickButton b s) =
           Num (max 0 (min (max 1000 (2 * t))
                  (case b of Minus1k \<Rightarrow> v - 1000 | Plus1k \<Rightarrow> v + 1000
                   | Minus10k \<Rightarrow> v - 10000 | Plus10k \<Rightarrow> v + 10000)))"
proof -
  from assms(4,5) have sf: "safe (v - 1000)" "safe (v + 1000)"
    unfolding safe_def by linarith+
  from sf assms(4,5) have e: "jsub (Num v) (Num 1000) = Num (v - 1000)"
    "jadd (Num v) (Num 1000) = Num (v + 1000)"
    "jsub (Num v) (Num 10000) = Num (v - 10000)"
    "jadd (Num v) (Num 10000) = Num (v + 10000)"
    by (simp_all add: jsub_def to_double_safe)
  from knob_range_Num [OF assms(2,3)] e assms(1) show ?thesis
    by (cases b) (simp_all add: clamp_Num)
qed

subsection \<open>Loading a corrupt store\<close>

lemma StringToNumber_NaN_nonempty: "StringToNumber raw = Some NaN \<Longrightarrow> raw \<noteq> []"
  by (auto simp: StringToNumber_def trim_def)

text \<open>
  The full component: a missing ledger and a ledger that \<open>JSON.parse\<close> rejects both
  load as \<open>[]\<close>, with nothing passed to \<open>alert\<close>; the rejected one leaves a line on
  the console.
\<close>

lemma load_entries_recovers:
  "(st ENTRIES = None \<longrightarrow> load_entries parse st = Some ([], [])) \<and>
   (st ENTRIES = Some raw \<and> parse raw = Some (Inl err) \<longrightarrow>
      load_entries parse st =
        Some ([], if raw \<noteq> [] then [''Failed parsing entries from localStorage''] else []))"
  by (simp add: load_entries_def)

lemma App_init_recovers:
  assumes "st ENTRIES = None \<or> (\<exists>raw err. st ENTRIES = Some raw \<and> parse raw = Some (Inl err))"
    and "App_init parse st = Some s"
  shows "entries s = [] \<and> alerts s = []"
  using assms
  by (auto simp: App_init_def load_entries_def split: Option.bind_splits if_splits)

text \<open>
  \<open>src/App.jsx\<close>: a stored, non-empty ledger that \<open>JSON.parse\<close> rejects makes the
  initialiser throw.
\<close>

lemma App_init_src_throws:
  assumes "st ENTRIES = Some raw" and "raw \<noteq> []" and "parse raw = Some (Inl err)"
    and "load_targetSum_src st = Some t" and "load_progress_src st = Some p"
  shows "App_init_src parse st = Some (Inl err)"
  using assms
  by (simp add: App_init_src_def load_entries_src_def getItem_def)

subsection \<open>The claims\<close>

text \<open>
  C1, as the code has it. Progress is a double, and \<open>p + newAmount\<close> and
  \<open>p - old + parsed\<close> round. From the first launch (progress 25000, empty ledger,
  the invariant holds with baseline 25000): commit the pending 1000 and edit the new
  entry to 9007199254740992 (that is \<open>2^53\<close>), then twice more commit 1000 and edit
  the new entry to 1. Each of the two last edits computes
  \<open>9007199254766992 - 1000 + 1\<close>, which rounds back to 9007199254765992. The
  ledger then holds 1, 1 and \<open>2^53\<close>, so baseline plus sum is 9007199254765994, and
  progress is 9007199254765992.
\<close>

theorem ledger_rounding_counterexample:
  "ledger_inv 25000 default_state \<and>
   run (CommitKnob ''t1'' # editEntry 0 ''9007199254740992'' [] @
        CommitKnob ''t2'' # editEntry 0 ''1'' [] @
        CommitKnob ''t3'' # editEntry 0 ''1'' []) default_state =
     Some (default_state
            \<lparr>progress := Num 9007199254765992,
             entries := [Ent \<lparr>amount = Num 1, partName = None, date = Some ''t3''\<rparr>,
                         Ent \<lparr>amount = Num 1, partName = None, date = Some ''t2''\<rparr>,
                         Ent \<lparr>amount = Num 9007199254740992, partName = None,
                              date = Some ''t1''\<rparr>]\<rparr>) \<and>
   25000 + sum_amounts [Ent \<lparr>amount = Num 1, partName = None, date = Some ''t3''\<rparr>,
                        Ent \<lparr>amount = Num 1, partName = None, date = Some ''t2''\<rparr>,
                        Ent \<lparr>amount = Num 9007199254740992, partName = None,
                             date = Some ''t1''\<rparr>] = 9007199254765994 \<and>
   \<not> ledger_inv 25000
        (default_state
            \<lparr>progress := Num 9007199254765992,
             entries := [Ent \<lparr>amount = Num 1, partName = None, date = Some ''t3''\<rparr>,
                         Ent \<lparr>amount = Num 1, partName = None, date = Some ''t2''\<rparr>,
                         Ent \<lparr>amount = Num 9007199254740992, partName = None,
                              date = Some ''t1''\<rparr>]\<rparr>)"
  by code_simp

text \<open>
  C1, amended. The invariant \<open>progress = baseline + sum of the amounts\<close> is kept by
  every event that is exact in the state it starts from (its amounts are integers and
  the sums and differences it forms for progress are safe integers): the handler
  returns a state, and the invariant holds in it. So it is kept by every exact
  sequence of events, at the end and after every prefix of the sequence (\<open>take k\<close>).
  \<open>clearAllEntries\<close> and the Reset button establish it with baseline 0.
\<close>

theorem ledger_invariant_preserved:
  "(ledger_inv b s \<and> exact_op x s \<longrightarrow> (\<exists>s'. step x s = Some s' \<and> ledger_inv b s')) \<and>
   (ledger_inv b s \<and> exact_run ops s \<longrightarrow>
      (\<exists>s'. run ops s = Some s' \<and> ledger_inv b s') \<and>
      (\<exists>s1. run (take k ops) s = Some s1 \<and> ledger_inv b s1)) \<and>
   ledger_inv 0 (clearAllEntries s) \<and> ledger_inv 0 (resetButton s)"
proof -
  have "ledger_inv 0 (clearAllEntries s)"
    by (simp add: ledger_inv_def clearAllEntries_def cancelEdit_def sum_amounts_Nil
        finite_amounts_def)
  moreover have "ledger_inv 0 (resetButton s)"
    by (simp add: ledger_inv_def resetButton_def cancelEdit_def sum_amounts_Nil
        finite_amounts_def)
  ultimately show ?thesis
    using step_exact [of b s x] run_exact [of b s ops]
      run_exact [OF _ exact_run_take, of b s ops k]
    by blast
qed

theorem ledger_invariant_preserved_witness:
  "ledger_inv 25000 default_state \<and>
   exact_run [AddEntry (VNum (Num 2000)) [] ''t1'', AddEntry (VStr ''-300'') ''x'' ''t2'',
        StartEdit 1, DeleteEntry 0, SaveEdit, CommitKnob ''t3''] default_state \<and>
   run [AddEntry (VNum (Num 2000)) [] ''t1'', AddEntry (VStr ''-300'') ''x'' ''t2'',
        StartEdit 1, DeleteEntry 0, SaveEdit, CommitKnob ''t3''] default_state =
     Some (default_state
            \<lparr>progress := Num 30000,
             entries := [Ent \<lparr>amount = Num 1000, partName = None, date = Some ''t3''\<rparr>,
                         Ent \<lparr>amount = Num 2000, partName = None, date = Some ''t1''\<rparr>,
                         Ent \<lparr>amount = Num 2000, partName = None, date = None\<rparr>]\<rparr>) \<and>
   ledger_inv 25000 (default_state
            \<lparr>progress := Num 30000,
             entries := [Ent \<lparr>amount = Num 1000, partName = None, date = Some ''t3''\<rparr>,
                         Ent \<lparr>amount = Num 2000, partName = None, date = Some ''t1''\<rparr>,
                         Ent \<lparr>amount = Num 2000, partName = None, date = None\<rparr>]\<rparr>)"
proof -
  have i: "ledger_inv 25000 default_state"
    by (simp add: ledger_inv_def default_state_def sum_amounts_Nil finite_amounts_def)
  have e: "exact_run [AddEntry (VNum (Num 2000)) [] ''t1'', AddEntry (VStr ''-300'') ''x'' ''t2'',
        StartEdit 1, DeleteEntry 0, SaveEdit, CommitKnob ''t3''] default_state"
    by code_simp
  have r: "run [AddEntry (VNum (Num 2000)) [] ''t1'', AddEntry (VStr ''-300'') ''x'' ''t2'',
        StartEdit 1, DeleteEntry 0, SaveEdit, CommitKnob ''t3''] default_state =
     Some (default_state
            \<lparr>progress := Num 30000,
             entries := [Ent \<lparr>amount = Num 1000, partName = None, date = Some ''t3''\<rparr>,
                         Ent \<lparr>amount = Num 2000, partName = None, date = Some ''t1''\<rparr>,
                         Ent \<lparr>amount = Num 2000, partName = None, date = None\<rparr>]\<rparr>)"
    by code_simp
  from ledger_invariant_preserved [of 25000 default_state _
         "[AddEntry (VNum (Num 2000)) [] ''t1'', AddEntry (VStr ''-300'') ''x'' ''t2'',
           StartEdit 1, DeleteEntry 0, SaveEdit, CommitKnob ''t3'']"] i e r
  have "ledger_inv 25000 (default_state
            \<lparr>progress := Num 30000,
             entries := [Ent \<lparr>amount = Num 1000, partName = None, date = Some ''t3''\<rparr>,
                         Ent \<lparr>amount = Num 2000, partName = None, date = Some ''t1''\<rparr>,
                         Ent \<lparr>amount = Num 2000, partName = None, date = None\<rparr>]\<rparr>)"
    by auto
  with i e r show ?thesis by blast
qed

text \<open>
  C2, as the code has it. With the stored progress 9007199254740992 (\<open>2^53\<close>),
  \<open>addEntry(1)\<close> prepends the entry and leaves progress at \<open>2^53\<close>: the sum
  \<open>2^53 + 1\<close> is no double, and progress has not grown by exactly the amount.
\<close>

theorem addEntry_rounding_counterexample:
  "App_init JSON_parse (Map.empty(PROGRESS \<mapsto> ''9007199254740992'')) =
     Some (default_state\<lparr>progress := Num 9007199254740992\<rparr>) \<and>
   addEntry (VNum (Num 1)) [] ''t1'' (default_state\<lparr>progress := Num 9007199254740992\<rparr>) =
     Some (default_state\<lparr>entries := [Ent \<lparr>amount = Num 1, partName = None, date = Some ''t1''\<rparr>],
                         progress := Num 9007199254740992\<rparr>) \<and>
   Num 9007199254740992 \<noteq> Num (9007199254740992 + 1)"
  by code_simp

text \<open>
  C2, amended. In both versions of \<open>addEntry\<close>: when \<open>Number(amount)\<close> is \<open>NaN\<close>
  or 0 the state is returned as it was (ledger, progress, and the logs of \<open>alert\<close>
  and \<open>console.error\<close>); for every other number \<open>x\<close> (negative and infinite ones
  included) the entry with amount \<open>x\<close> is prepended and progress becomes the double
  sum \<open>progress + x\<close>. That sum is exactly \<open>q + n\<close> when progress is \<open>q\<close>, the
  amount is \<open>n\<close> and \<open>q + n\<close> is a safe integer; a progress of \<open>NaN\<close> stays
  \<open>NaN\<close>, and the entry is prepended all the same.
\<close>

theorem addEntry_rejects_or_prepends:
  "(Number a = Some x \<and> (x = NaN \<or> x = Num 0) \<longrightarrow>
      addEntry a l now s = Some s \<and> addEntry_src a l now s = Some s) \<and>
   (Number a = Some x \<and> x \<noteq> NaN \<and> x \<noteq> Num 0 \<longrightarrow>
      addEntry a l now s =
        Some (s\<lparr>entries := Ent \<lparr>amount = x, partName = (if l \<noteq> [] then Some l else None),
                               date = Some now\<rparr> # spread (entries s),
                progress := jadd (progress s) x\<rparr>) \<and>
      addEntry_src a l now s =
        Some (s\<lparr>entries := Ent \<lparr>amount = x, partName = (if l \<noteq> [] then Some l else None),
                               date = Some now\<rparr> # spread (entries s),
                progress := jadd (progress s) x\<rparr>)) \<and>
   (safe (q + n) \<longrightarrow> jadd (Num q) (Num n) = Num (q + n)) \<and>
   jadd NaN x = NaN"
proof -
  have a: "addEntry a l now s = Some s \<and> addEntry_src a l now s = Some s"
    if "Number a = Some x" and "x = NaN \<or> x = Num 0"
    using that addEntry_src_eq [of a x l now s] by (auto simp: addEntry_def)
  have b: "addEntry a l now s =
        Some (s\<lparr>entries := Ent \<lparr>amount = x, partName = (if l \<noteq> [] then Some l else None),
                               date = Some now\<rparr> # spread (entries s),
                progress := jadd (progress s) x\<rparr>) \<and>
      addEntry_src a l now s =
        Some (s\<lparr>entries := Ent \<lparr>amount = x, partName = (if l \<noteq> [] then Some l else None),
                               date = Some now\<rparr> # spread (entries s),
                progress := jadd (progress s) x\<rparr>)"
    if "Number a = Some x" and "x \<noteq> NaN" and "x \<noteq> Num 0"
    using that addEntry_src_eq [of a x l now s] by (simp add: addEntry_def)
  have c: "safe (q + n) \<longrightarrow> jadd (Num q) (Num n) = Num (q + n)"
    by (simp add: to_double_safe)
  from a b c show ?thesis by simp
qed

theorem addEntry_rejects_or_prepends_witness:
  "Number (VStr ''abc'') = Some NaN \<and>
   addEntry (VStr ''abc'') ''bonus'' ''t1'' default_state = Some default_state \<and>
   addEntry_src (VStr ''abc'') ''bonus'' ''t1'' default_state = Some default_state \<and>
   Number (VNum (Num (- 500))) = Some (Num (- 500)) \<and>
   addEntry (VNum (Num (- 500))) ''bonus'' ''t1'' default_state =
     Some (default_state\<lparr>entries := [Ent \<lparr>amount = Num (- 500), partName = Some ''bonus'', date = Some ''t1''\<rparr>],
                         progress := Num 24500\<rparr>) \<and>
   addEntry_src (VNum (Num (- 500))) ''bonus'' ''t1'' default_state =
     Some (default_state\<lparr>entries := [Ent \<lparr>amount = Num (- 500), partName = Some ''bonus'', date = Some ''t1''\<rparr>],
                         progress := Num 24500\<rparr>) \<and>
   addEntry (VNum (Num 5)) [] ''t2'' (default_state\<lparr>progress := NaN\<rparr>) =
     Some (default_state\<lparr>progress := NaN,
                         entries := [Ent \<lparr>amount = Num 5, partName = None, date = Some ''t2''\<rparr>]\<rparr>)"
proof -
  have n: "Number (VStr ''abc'') = Some NaN" by code_simp
  have m: "Number (VNum (Num (- 500))) = Some (Num (- 500))" by simp
  have m5: "Number (VNum (Num 5)) = Some (Num 5)" by simp
  have p: "progress default_state = Num 25000" "entries default_state = []"
    by (simp_all add: default_state_def)
  have sf: "safe (25000 + (- 500))" by (simp add: safe_def)
  from addEntry_rejects_or_prepends [of "VStr ''abc''" NaN "''bonus''" "''t1''" default_state] n
  have a: "addEntry (VStr ''abc'') ''bonus'' ''t1'' default_state = Some default_state \<and>
   addEntry_src (VStr ''abc'') ''bonus'' ''t1'' default_state = Some default_state" by blast
  from addEntry_rejects_or_prepends
         [of "VNum (Num (- 500))" "Num (- 500)" "''bonus''" "''t1''" default_state 25000 "- 500"] m p sf
  have b: "addEntry (VNum (Num (- 500))) ''bonus'' ''t1'' default_state =
     Some (default_state\<lparr>entries := [Ent \<lparr>amount = Num (- 500), partName = Some ''bonus'', date = Some ''t1''\<rparr>],
                         progress := Num 24500\<rparr>) \<and>
   addEntry_src (VNum (Num (- 500))) ''bonus'' ''t1'' default_state =
     Some (default_state\<lparr>entries := [Ent \<lparr>amount = Num (- 500), partName = Some ''bonus'', date = Some ''t1''\<rparr>],
                         progress := Num 24500\<rparr>)"
    by (simp add: spread_def)
  from addEntry_rejects_or_prepends
         [of "VNum (Num 5)" "Num 5" "[]" "''t2''" "default_state\<lparr>progress := NaN\<rparr>"] m5 p
  have c: "addEntry (VNum (Num 5)) [] ''t2'' (default_state\<lparr>progress := NaN\<rparr>) =
     Some (default_state\<lparr>progress := NaN,
                         entries := [Ent \<lparr>amount = Num 5, partName = None, date = Some ''t2''\<rparr>]\<rparr>)"
    by (simp add: spread_def default_state_def)
  from n m a b c show ?thesis by blast
qed

text \<open>
  C3, as the code has it. With the stored target \<open>"abc"\<close> and nothing else stored,
  the full component starts with the target \<open>NaN\<close> and \<open>src/App.jsx\<close> starts with
  the default 100000; in neither is the target 0.
\<close>

theorem corrupt_target_counterexample:
  "App_init JSON_parse (Map.empty(TARGET \<mapsto> ''abc'')) = Some (default_state\<lparr>targetSum := NaN\<rparr>) \<and>
   targetSum (default_state\<lparr>targetSum := NaN\<rparr>) \<noteq> Num 0 \<and>
   App_init_src JSON_parse (Map.empty(TARGET \<mapsto> ''abc'')) = Some (Inr default_state) \<and>
   targetSum default_state \<noteq> Num 0"
  by code_simp

text \<open>
  C3, amended. When the stored target is a string that \<open>Number\<close> maps to \<open>NaN\<close>
  (such as \<open>"abc"\<close>), the full component loads the target \<open>NaN\<close>, and
  \<open>src/App.jsx\<close> loads the default 100000. Loading the target throws in neither:
  the full component has no exception at all, and the only exception of
  \<open>src/App.jsx\<close> is the one \<open>JSON.parse\<close> throws on the stored ledger.
\<close>

theorem corrupt_target_loads_NaN_or_default:
  assumes "st TARGET = Some raw" and "StringToNumber raw = Some NaN"
  shows "load_targetSum st = Some NaN \<and> load_targetSum_src st = Some (Num 100000) \<and>
         (App_init parse st = Some s \<longrightarrow> targetSum s = NaN) \<and>
         (App_init_src parse st = Some (Inr s) \<longrightarrow> targetSum s = Num 100000) \<and>
         (App_init_src parse st = Some (Inl err) \<longrightarrow> load_entries_src parse st = Some (Inl err))"
proof -
  from assms have a: "load_targetSum st = Some NaN"
    by (auto simp: load_targetSum_def dest: StringToNumber_NaN_nonempty)
  from assms have b: "load_targetSum_src st = Some (Num 100000)"
    by (simp add: load_targetSum_src_def getItem_def)
  from a have c: "App_init parse st = Some s \<longrightarrow> targetSum s = NaN"
    by (auto simp: App_init_def split: Option.bind_splits)
  from b have d: "App_init_src parse st = Some (Inr s) \<longrightarrow> targetSum s = Num 100000"
    by (auto simp: App_init_src_def split: Option.bind_splits sum.splits)
  have e: "App_init_src parse st = Some (Inl err) \<longrightarrow> load_entries_src parse st = Some (Inl err)"
    by (auto simp: App_init_src_def split: Option.bind_splits sum.splits)
  from a b c d e show ?thesis by blast
qed

theorem corrupt_target_loads_NaN_or_default_witness:
  "(Map.empty(TARGET \<mapsto> ''abc'')) TARGET = Some ''abc'' \<and> StringToNumber ''abc'' = Some NaN \<and>
   App_init JSON_parse (Map.empty(TARGET \<mapsto> ''abc'')) = Some (default_state\<lparr>targetSum := NaN\<rparr>) \<and>
   App_init_src JSON_parse (Map.empty(TARGET \<mapsto> ''abc'')) = Some (Inr default_state) \<and>
   targetSum (default_state\<lparr>targetSum := NaN\<rparr>) = NaN \<and>
   targetSum default_state = Num 100000"
proof -
  have h: "(Map.empty(TARGET \<mapsto> ''abc'')) TARGET = Some ''abc''" by simp
  have n: "StringToNumber ''abc'' = Some NaN" by code_simp
  have i: "App_init JSON_parse (Map.empty(TARGET \<mapsto> ''abc'')) = Some (default_state\<lparr>targetSum := NaN\<rparr>)"
    by code_simp
  have j: "App_init_src JSON_parse (Map.empty(TARGET \<mapsto> ''abc'')) = Some (Inr default_state)"
    by code_simp
  from corrupt_target_loads_NaN_or_default
         [of "Map.empty(TARGET \<mapsto> ''abc'')" "''abc''" JSON_parse] h n i j
  have "targetSum (default_state\<lparr>targetSum := NaN\<rparr>) = NaN" "targetSum default_state = Num 100000"
    by blast+
  with h n i j show ?thesis by blast
qed

text \<open>
  C4, as the code has it. The full component launched with the stored target
  \<open>"abc"\<close> has the target \<open>NaN\<close>. The button +1k then computes
  \<open>clamp(2000, 0, Math.max(1000, NaN))\<close>, which is \<open>NaN\<close>. Typing the target
  5000 leaves the pending value alone, and +1k computes \<open>clamp(NaN + 1000, 0, 10000)\<close>:
  the target is 5000 and the pending value after the button is \<open>NaN\<close>, which is not
  in \<open>[0, 10000]\<close>.
\<close>

theorem knob_NaN_counterexample:
  "App_init JSON_parse (Map.empty(TARGET \<mapsto> ''abc'')) = Some (default_state\<lparr>targetSum := NaN\<rparr>) \<and>
   run [QuickButton Plus1k, TargetChange ''5000'', QuickButton Plus1k]
       (default_state\<lparr>targetSum := NaN\<rparr>) =
     Some (default_state\<lparr>targetSum := Num 5000, knobValue := NaN\<rparr>) \<and>
   knob_range (default_state\<lparr>targetSum := Num 5000, knobValue := NaN\<rparr>) = Num 10000 \<and>
   \<not> knob_in_range (default_state\<lparr>targetSum := Num 5000, knobValue := NaN\<rparr>)"
  by code_simp

text \<open>
  C4, amended. For every target that is not \<open>NaN\<close> (negative and infinite ones
  included) and every pending value that is not \<open>NaN\<close>, the pending value after a
  quick button lies in \<open>[0, Math.max(1000, 2 * target)]\<close>, and a pointer move either
  changes nothing or leaves the pending value in that range. With pointer positions
  that, like their difference, are safe integers, the move returns a state: during a
  drag, a move of at least one step sets the pending value to the clamped sum, which
  is in the range, and makes its position the reference; with no drag active, or for a
  move that rounds to 0 steps, the state is unchanged. A pending value of \<open>NaN\<close>
  stays \<open>NaN\<close> under every quick button. On safe integers a quick button gives
  \<open>max(0, min(max(1000, 2 * t), v + delta))\<close>, the upper end of the range is
  \<open>max(1000, 2 * t)\<close>, and for numbers \<open>v\<close> and \<open>h\<close> being in range is
  \<open>0 \<le> v \<le> h\<close>.
\<close>

theorem knob_clamp_law:
  "(targetSum s \<noteq> NaN \<and> knobValue s \<noteq> NaN \<longrightarrow> knob_in_range (quickButton b s)) \<and>
   (targetSum s \<noteq> NaN \<and> knobValue s \<noteq> NaN \<and> onPointerMove x s = Some s' \<longrightarrow>
      s' = s \<or> knob_in_range s') \<and>
   (safe x \<and> safe (reference_x s) \<and> safe (x - reference_x s) \<longrightarrow>
      (\<exists>s''. onPointerMove x s = Some s'')) \<and>
   (targetSum s \<noteq> NaN \<and> knobValue s \<noteq> NaN \<and> pointerActive s \<and>
    safe x \<and> safe (reference_x s) \<and> safe (x - reference_x s) \<and>
    Math_round_div (x - reference_x s) STEP_SIZE \<noteq> 0 \<longrightarrow>
      onPointerMove x s =
        Some (s\<lparr>knobValue :=
                   clamp (jadd (knobValue s)
                            (jmul (Num (Math_round_div (x - reference_x s) STEP_SIZE)) (Num 1000)))
                     (Num 0) (knob_range s),
                 lastAngle := Some x\<rparr>) \<and>
      knob_in_range
        (s\<lparr>knobValue :=
              clamp (jadd (knobValue s)
                       (jmul (Num (Math_round_div (x - reference_x s) STEP_SIZE)) (Num 1000)))
                (Num 0) (knob_range s),
            lastAngle := Some x\<rparr>)) \<and>
   (\<not> pointerActive s \<or>
    safe x \<and> safe (reference_x s) \<and> safe (x - reference_x s) \<and>
    Math_round_div (x - reference_x s) STEP_SIZE = 0 \<longrightarrow>
      onPointerMove x s = Some s) \<and>
   (knobValue s = NaN \<longrightarrow> knobValue (quickButton b s) = NaN) \<and>
   (knobValue s = Num v \<and> targetSum s = Num t \<and> safe (2 * t) \<and>
    safe (v - 10000) \<and> safe (v + 10000) \<longrightarrow>
      knobValue (quickButton b s) =
        Num (max 0 (min (max 1000 (2 * t))
               (case b of Minus1k \<Rightarrow> v - 1000 | Plus1k \<Rightarrow> v + 1000
                | Minus10k \<Rightarrow> v - 10000 | Plus10k \<Rightarrow> v + 10000)))) \<and>
   (targetSum s = Num t \<and> safe (2 * t) \<longrightarrow> knob_range s = Num (max 1000 (2 * t))) \<and>
   (knobValue s = Num v \<and> knob_range s = Num h \<longrightarrow> knob_in_range s = (0 \<le> v \<and> v \<le> h))"
proof -
  have a: "targetSum s \<noteq> NaN \<and> knobValue s \<noteq> NaN \<longrightarrow> knob_in_range (quickButton b s)"
    using quickButton_in_range [of s b] by blast
  have b: "targetSum s \<noteq> NaN \<and> knobValue s \<noteq> NaN \<and> onPointerMove x s = Some s' \<longrightarrow>
      s' = s \<or> knob_in_range s'"
    using onPointerMove_in_range [of s x s'] by blast
  have c: "safe x \<and> safe (reference_x s) \<and> safe (x - reference_x s) \<longrightarrow>
      (\<exists>s''. onPointerMove x s = Some s'')"
    using onPointerMove_defined [of x s] by blast
  have d: "onPointerMove x s =
        Some (s\<lparr>knobValue :=
                   clamp (jadd (knobValue s)
                            (jmul (Num (Math_round_div (x - reference_x s) STEP_SIZE)) (Num 1000)))
                     (Num 0) (knob_range s),
                 lastAngle := Some x\<rparr>) \<and>
      knob_in_range
        (s\<lparr>knobValue :=
              clamp (jadd (knobValue s)
                       (jmul (Num (Math_round_div (x - reference_x s) STEP_SIZE)) (Num 1000)))
                (Num 0) (knob_range s),
            lastAngle := Some x\<rparr>)"
    if h: "targetSum s \<noteq> NaN" "knobValue s \<noteq> NaN" "pointerActive s"
      "safe x" "safe (reference_x s)" "safe (x - reference_x s)"
      "Math_round_div (x - reference_x s) STEP_SIZE \<noteq> 0"
  proof -
    from steps_finite [OF h(6)] obtain j
      where j: "jmul (Num (Math_round_div (x - reference_x s) STEP_SIZE)) (Num 1000) = Num j"
      by blast
    from jadd_Num_not_NaN [OF h(2), of j]
      knob_in_range_clamp [OF h(1), of "jadd (knobValue s) (Num j)" "Some x"]
    have "knob_in_range (s\<lparr>knobValue := clamp (jadd (knobValue s) (Num j)) (Num 0) (knob_range s),
                           lastAngle := Some x\<rparr>)" by blast
    with j onPointerMove_adjust [OF h(3) h(4) h(5) h(6)] h(7) show ?thesis by simp
  qed
  have e: "\<not> pointerActive s \<or>
    safe x \<and> safe (reference_x s) \<and> safe (x - reference_x s) \<and>
    Math_round_div (x - reference_x s) STEP_SIZE = 0 \<longrightarrow>
      onPointerMove x s = Some s"
    using onPointerMove_idle [of s x] onPointerMove_adjust [of s x]
    by (cases "pointerActive s") auto
  have f: "knobValue s = NaN \<longrightarrow> knobValue (quickButton b s) = NaN"
    using quickButton_NaN [of s b] by blast
  have g: "knobValue s = Num v \<and> targetSum s = Num t \<and> safe (2 * t) \<and>
    safe (v - 10000) \<and> safe (v + 10000) \<longrightarrow>
      knobValue (quickButton b s) =
        Num (max 0 (min (max 1000 (2 * t))
               (case b of Minus1k \<Rightarrow> v - 1000 | Plus1k \<Rightarrow> v + 1000
                | Minus10k \<Rightarrow> v - 10000 | Plus10k \<Rightarrow> v + 10000)))"
    using quickButton_Num [of s v t b] by blast
  have i: "targetSum s = Num t \<and> safe (2 * t) \<longrightarrow> knob_range s = Num (max 1000 (2 * t))"
    using knob_range_Num [of s t] by blast
  have k: "knobValue s = Num v \<and> knob_range s = Num h \<longrightarrow> knob_in_range s = (0 \<le> v \<and> v \<le> h)"
    by (simp add: knob_in_range_def)
  from a b c d e f g i k show ?thesis by blast
qed

theorem knob_clamp_law_witness:
  "targetSum (default_state\<lparr>knobValue := Num 195000\<rparr>) \<noteq> NaN \<and>
   knobValue (default_state\<lparr>knobValue := Num 195000\<rparr>) \<noteq> NaN \<and>
   quickButton Plus10k (default_state\<lparr>knobValue := Num 195000\<rparr>) =
     default_state\<lparr>knobValue := Num 200000\<rparr> \<and>
   knob_in_range (default_state\<lparr>knobValue := Num 200000\<rparr>) \<and>
   knob_range (default_state\<lparr>knobValue := Num 200000\<rparr>) = Num (max 1000 (2 * 100000)) \<and>
   onPointerMove (- 30)
       (default_state\<lparr>knobValue := Num 195000, pointerActive := True, lastAngle := Some 0\<rparr>) =
     Some (default_state\<lparr>knobValue := Num 192000, pointerActive := True, lastAngle := Some (- 30)\<rparr>) \<and>
   knob_in_range
     (default_state\<lparr>knobValue := Num 192000, pointerActive := True, lastAngle := Some (- 30)\<rparr>)"
proof -
  have q: "quickButton Plus10k (default_state\<lparr>knobValue := Num 195000\<rparr>) =
     default_state\<lparr>knobValue := Num 200000\<rparr>"
    by code_simp
  have m: "onPointerMove (- 30)
       (default_state\<lparr>knobValue := Num 195000, pointerActive := True, lastAngle := Some 0\<rparr>) =
     Some (default_state\<lparr>knobValue := Num 192000, pointerActive := True, lastAngle := Some (- 30)\<rparr>)"
    by code_simp
  have t: "targetSum (default_state\<lparr>knobValue := Num 195000\<rparr>) \<noteq> NaN"
     "knobValue (default_state\<lparr>knobValue := Num 195000\<rparr>) \<noteq> NaN"
     "targetSum (default_state\<lparr>knobValue := Num 195000, pointerActive := True, lastAngle := Some 0\<rparr>)
        \<noteq> NaN"
     "knobValue (default_state\<lparr>knobValue := Num 195000, pointerActive := True, lastAngle := Some 0\<rparr>)
        \<noteq> NaN"
     "targetSum (default_state\<lparr>knobValue := Num 200000\<rparr>) = Num 100000"
     "safe (2 * 100000)"
    by (simp_all add: default_state_def safe_def)
  have ne: "default_state\<lparr>knobValue := Num 192000, pointerActive := True, lastAngle := Some (- 30)\<rparr> \<noteq>
            default_state\<lparr>knobValue := Num 195000, pointerActive := True, lastAngle := Some 0\<rparr>"
    by (simp add: default_state_def)
  from knob_clamp_law [of "default_state\<lparr>knobValue := Num 195000\<rparr>" Plus10k] q t(1,2)
  have a: "knob_in_range (default_state\<lparr>knobValue := Num 200000\<rparr>)" by simp
  from knob_clamp_law [of "default_state\<lparr>knobValue := Num 200000\<rparr>" _ _ _ _ 100000] t(5,6)
  have r: "knob_range (default_state\<lparr>knobValue := Num 200000\<rparr>) = Num (max 1000 (2 * 100000))"
    by blast
  from knob_clamp_law
         [of "default_state\<lparr>knobValue := Num 195000, pointerActive := True, lastAngle := Some 0\<rparr>"
             _ "- 30"] m ne t(3,4)
  have b: "knob_in_range
     (default_state\<lparr>knobValue := Num 192000, pointerActive := True, lastAngle := Some (- 30)\<rparr>)"
    by blast
  from q m t a b r show ?thesis by blast
qed

text \<open>
  C5, as the code has it. A drag is active with the reference position 0 and the
  pending value 10000 (target 100000, so nothing is clamped). One pointer move to
  \<open>clientX = 25\<close> makes the pending value 13000: three steps, neither 12000 nor
  8000.
\<close>

theorem drag_25px_counterexample:
  "onPointerMove 25
       (default_state\<lparr>knobValue := Num 10000, pointerActive := True, lastAngle := Some 0\<rparr>) =
     Some (default_state\<lparr>knobValue := Num 13000, pointerActive := True, lastAngle := Some 25\<rparr>) \<and>
   Num 13000 \<noteq> Num (10000 + 2000) \<and> Num 13000 \<noteq> Num (10000 - 2000)"
  by code_simp

text \<open>
  The same 25 pixels arriving one pixel per move: the reference position only moves
  when a step is taken, so every fifth pixel rounds to one step, five steps in all.
\<close>

lemma drag_25px_in_single_pixels:
  "run (PointerDown 0 #
        map PointerMove [1, 2, 3, 4, 5, 6, 7, 8, 9, 10, 11, 12, 13, 14, 15, 16, 17, 18, 19,
                         20, 21, 22, 23, 24, 25])
       (default_state\<lparr>knobValue := Num 10000\<rparr>) =
     Some (default_state\<lparr>knobValue := Num 15000, pointerActive := True, lastAngle := Some 25\<rparr>)"
  by code_simp

text \<open>
  C5, amended. During an active drag, one pointer move at a displacement of \<open>d\<close>
  pixels from the reference position changes the pending value by
  \<open>Math.round(d / 10)\<close> whole steps of 1000, never by a fraction of a step, and then
  clamps it: 3 steps up for 25 pixels, 2 steps down for \<open>-25\<close> pixels. A move that
  rounds to 0 steps changes nothing, the reference position included; any other move
  makes its position the new reference. The sums are those of doubles; where they are
  safe integers the new pending value is
  \<open>clamp(v + steps * 1000, 0, max(1000, 2 * t))\<close> on the integers.
\<close>

theorem drag_steps_round_half_up:
  assumes "pointerActive s" and "lastAngle s = Some x0" and "knobValue s = Num v"
    and "targetSum s = Num t" and "onPointerMove x s = Some s'"
  shows "(x - x0 = 25 \<longrightarrow>
            s' = s\<lparr>knobValue := clamp (jadd (Num v) (Num 3000)) (Num 0) (knob_range s),
                   lastAngle := Some x\<rparr>) \<and>
         (x - x0 = - 25 \<longrightarrow>
            s' = s\<lparr>knobValue := clamp (jsub (Num v) (Num 2000)) (Num 0) (knob_range s),
                   lastAngle := Some x\<rparr>) \<and>
         (Math_round_div (x - x0) STEP_SIZE = 0 \<longrightarrow> s' = s) \<and>
         (Math_round_div (x - x0) STEP_SIZE \<noteq> 0 \<longrightarrow>
            s' = s\<lparr>knobValue :=
                     clamp (jadd (Num v) (jmul (Num (Math_round_div (x - x0) STEP_SIZE)) (Num 1000)))
                       (Num 0) (knob_range s),
                   lastAngle := Some x\<rparr>) \<and>
         (x - x0 = 25 \<and> safe (v + 3000) \<and> safe (2 * t) \<longrightarrow>
            s' = s\<lparr>knobValue := clamp (Num (v + 3000)) (Num 0) (Num (max 1000 (2 * t))),
                   lastAngle := Some x\<rparr>) \<and>
         (x - x0 = - 25 \<and> safe (v - 2000) \<and> safe (2 * t) \<longrightarrow>
            s' = s\<lparr>knobValue := clamp (Num (v - 2000)) (Num 0) (Num (max 1000 (2 * t))),
                   lastAngle := Some x\<rparr>) \<and>
         (safe (v + Math_round_div (x - x0) STEP_SIZE * 1000) \<and>
          safe (Math_round_div (x - x0) STEP_SIZE * 1000) \<and> safe (2 * t) \<and>
          Math_round_div (x - x0) STEP_SIZE \<noteq> 0 \<longrightarrow>
            s' = s\<lparr>knobValue := clamp (Num (v + Math_round_div (x - x0) STEP_SIZE * 1000))
                                  (Num 0) (Num (max 1000 (2 * t))),
                   lastAngle := Some x\<rparr>)"
proof -
  have r: "reference_x s = x0" using assms(2) by (simp add: reference_x_def)
  have a: "Math_round_div 25 STEP_SIZE = 3" "Math_round_div (- 25) STEP_SIZE = - 2"
    by (simp_all add: Math_round_div_def STEP_SIZE_def)
  have k: "jmul (Num 3) (Num 1000) = Num 3000" "jmul (Num (- 2)) (Num 1000) = Num (- 2000)"
    by (simp_all add: to_double_safe safe_def)
  from onPointerMove_result [OF assms(1) assms(5)] r a k assms(3)
  have g: "(x - x0 = 25 \<longrightarrow>
            s' = s\<lparr>knobValue := clamp (jadd (Num v) (Num 3000)) (Num 0) (knob_range s),
                   lastAngle := Some x\<rparr>)"
    "(x - x0 = - 25 \<longrightarrow>
            s' = s\<lparr>knobValue := clamp (jsub (Num v) (Num 2000)) (Num 0) (knob_range s),
                   lastAngle := Some x\<rparr>)"
    "(Math_round_div (x - x0) STEP_SIZE = 0 \<longrightarrow> s' = s)"
    "(Math_round_div (x - x0) STEP_SIZE \<noteq> 0 \<longrightarrow>
            s' = s\<lparr>knobValue :=
                     clamp (jadd (Num v) (jmul (Num (Math_round_div (x - x0) STEP_SIZE)) (Num 1000)))
                       (Num 0) (knob_range s),
                   lastAngle := Some x\<rparr>)"
    by (auto simp: jsub_def)
  from g knob_range_Num [OF assms(4)] show ?thesis
    by (auto simp: to_double_safe jsub_def)
qed

theorem drag_steps_round_half_up_witness:
  "pointerActive (default_state\<lparr>knobValue := Num 10000, pointerActive := True, lastAngle := Some 0\<rparr>) \<and>
   onPointerMove (- 25)
       (default_state\<lparr>knobValue := Num 10000, pointerActive := True, lastAngle := Some 0\<rparr>) =
     Some (default_state\<lparr>knobValue := Num 8000, pointerActive := True, lastAngle := Some (- 25)\<rparr>) \<and>
   default_state\<lparr>knobValue := Num 8000, pointerActive := True, lastAngle := Some (- 25)\<rparr> =
     (default_state\<lparr>knobValue := Num 10000, pointerActive := True, lastAngle := Some 0\<rparr>)
       \<lparr>knobValue := clamp (Num (10000 - 2000)) (Num 0) (Num (max 1000 (2 * 100000))),
        lastAngle := Some (- 25)\<rparr>"
proof -
  let ?d = "default_state\<lparr>knobValue := Num 10000, pointerActive := True, lastAngle := Some 0\<rparr>"
  have h: "pointerActive ?d" "lastAngle ?d = Some 0" "knobValue ?d = Num 10000"
    "targetSum ?d = Num 100000"
    by (simp_all add: default_state_def)
  have sf: "safe (10000 - 2000)" "safe (2 * 100000)" by (simp_all add: safe_def)
  have m: "onPointerMove (- 25) ?d =
     Some (default_state\<lparr>knobValue := Num 8000, pointerActive := True, lastAngle := Some (- 25)\<rparr>)"
    by code_simp
  from drag_steps_round_half_up [OF h m, THEN conjunct2, THEN conjunct2, THEN conjunct2,
         THEN conjunct2, THEN conjunct2, THEN conjunct1] sf
  have "default_state\<lparr>knobValue := Num 8000, pointerActive := True, lastAngle := Some (- 25)\<rparr> =
     ?d\<lparr>knobValue := clamp (Num (10000 - 2000)) (Num 0) (Num (max 1000 (2 * 100000))),
        lastAngle := Some (- 25)\<rparr>"
    by simp
  with h(1) m show ?thesis by blast
qed

text \<open>
  C6, as the code has it. From the first launch, \<open>addEntry(2000)\<close> and then editing
  entry 0 to amount 500 and label \<open>rent\<close> ends with progress 25500, not 23000.
\<close>

theorem scenario2_counterexample:
  "run (AddEntry (VNum (Num 2000)) [] ''t1'' # editEntry 0 ''500'' ''rent'') default_state =
     Some (default_state\<lparr>progress := Num 25500,
                         entries := [Ent \<lparr>amount = Num 500, partName = Some ''rent'', date = Some ''t1''\<rparr>]\<rparr>) \<and>
   progress (default_state\<lparr>progress := Num 25500,
                         entries := [Ent \<lparr>amount = Num 500, partName = Some ''rent'', date = Some ''t1''\<rparr>]\<rparr>)
     \<noteq> Num 23000"
  by code_simp

text \<open>
  C6, amended. From the first launch (progress 25000, empty ledger), \<open>addEntry(2000)\<close>
  at any time \<open>now\<close>, followed by editing entry 0 to amount 500 and label \<open>rent\<close>,
  gives progress 25500 (that is 25000 + 2000 - 2000 + 500) and the one entry
  \<open>{amount: 500, partName: "rent"}\<close>, which keeps the date it was added on; nothing
  else differs from the first launch.
\<close>

theorem scenario2_progress:
  "run (AddEntry (VNum (Num 2000)) [] now # editEntry 0 ''500'' ''rent'') default_state =
     Some (default_state\<lparr>progress := Num 25500,
                         entries := [Ent \<lparr>amount = Num 500, partName = Some ''rent'', date = Some now\<rparr>]\<rparr>)"
  by code_simp

theorem scenario2_progress_witness:
  "run (AddEntry (VNum (Num 2000)) [] ''2025-01-01T00:00:00.000Z'' # editEntry 0 ''500'' ''rent'')
       default_state =
     Some (default_state\<lparr>progress := Num 25500,
                         entries := [Ent \<lparr>amount = Num 500, partName = Some ''rent'',
                                          date = Some ''2025-01-01T00:00:00.000Z''\<rparr>]\<rparr>)"
  using scenario2_progress [of "''2025-01-01T00:00:00.000Z''"] by simp

text \<open>
  C7, at the input where \<open>src/App.jsx\<close> breaks it. The stored ledger is \<open>"abc"\<close>,
  which \<open>JSON.parse\<close> rejects. The initialiser of \<open>src/App.jsx\<close> throws the
  \<open>SyntaxError\<close>; the full component catches it and starts with the empty ledger and
  one line on the console.
\<close>

theorem corrupt_ledger_uncaught_in_src:
  "App_init_src JSON_parse (Map.empty(ENTRIES \<mapsto> ''abc'')) = Some (Inl SyntaxError) \<and>
   App_init JSON_parse (Map.empty(ENTRIES \<mapsto> ''abc'')) =
     Some (default_state\<lparr>console := [''Failed parsing entries from localStorage'']\<rparr>)"
  by code_simp

text \<open>
  C8. \<open>clearAllEntries\<close> is idempotent: after it progress is 0 and the ledger is
  empty, and applying it again gives the same state.
\<close>

theorem clearAllEntries_idempotent:
  "progress (clearAllEntries s) = Num 0 \<and> entries (clearAllEntries s) = [] \<and>
   clearAllEntries (clearAllEntries s) = clearAllEntries s"
  by (simp add: clearAllEntries_def cancelEdit_def)

text \<open>
  C9. Committing the pending value 0 (or \<open>NaN\<close>) changes only the pending value,
  which becomes 1000: the ledger, progress and everything else are as before. Committing
  any other pending value prepends the entry, adds the value to progress and sets the
  pending value to 1000. In every state a commit returns a state, and the pending
  value in it is 1000.
\<close>

theorem commitKnob_resets_pending:
  "(knobValue s = Num 0 \<or> knobValue s = NaN \<longrightarrow>
      commitKnob now s = Some (s\<lparr>knobValue := Num 1000\<rparr>)) \<and>
   (knobValue s \<noteq> Num 0 \<and> knobValue s \<noteq> NaN \<longrightarrow>
      commitKnob now s =
        Some (s\<lparr>entries := Ent \<lparr>amount = knobValue s, partName = None, date = Some now\<rparr> #
                            spread (entries s),
                progress := jadd (progress s) (knobValue s),
                knobValue := Num 1000\<rparr>)) \<and>
   (\<exists>s'. commitKnob now s = Some s' \<and> knobValue s' = Num 1000)"
  by (auto simp: commitKnob_def addEntry_def)

theorem commitKnob_resets_pending_witness:
  "knobValue (default_state\<lparr>knobValue := Num 0\<rparr>) = Num 0 \<and>
   commitKnob ''t1'' (default_state\<lparr>knobValue := Num 0\<rparr>) = Some default_state \<and>
   knobValue (default_state\<lparr>knobValue := NaN\<rparr>) = NaN \<and>
   commitKnob ''t1'' (default_state\<lparr>knobValue := NaN\<rparr>) = Some default_state \<and>
   knobValue default_state = Num 1000 \<and>
   commitKnob ''t1'' (default_state\<lparr>knobValue := Num 7000\<rparr>) =
     Some (default_state\<lparr>entries := [Ent \<lparr>amount = Num 7000, partName = None, date = Some ''t1''\<rparr>],
                         progress := Num 32000\<rparr>)"
proof -
  have k: "knobValue (default_state\<lparr>knobValue := Num 0\<rparr>) = Num 0"
    "knobValue (default_state\<lparr>knobValue := NaN\<rparr>) = NaN"
    "knobValue default_state = Num 1000" by (simp_all add: default_state_def)
  have e: "(default_state\<lparr>knobValue := Num 0\<rparr>)\<lparr>knobValue := Num 1000\<rparr> = default_state"
    "(default_state\<lparr>knobValue := NaN\<rparr>)\<lparr>knobValue := Num 1000\<rparr> = default_state"
    by (simp_all add: default_state_def)
  from commitKnob_resets_pending [of "default_state\<lparr>knobValue := Num 0\<rparr>" "''t1''"] k e
  have a: "commitKnob ''t1'' (default_state\<lparr>knobValue := Num 0\<rparr>) = Some default_state"
    by simp
  from commitKnob_resets_pending [of "default_state\<lparr>knobValue := NaN\<rparr>" "''t1''"] k e
  have b: "commitKnob ''t1'' (default_state\<lparr>knobValue := NaN\<rparr>) = Some default_state"
    by simp
  have j: "jadd (Num 25000) (Num 7000) = Num 32000" by (simp add: to_double_safe safe_def)
  from commitKnob_resets_pending [of "default_state\<lparr>knobValue := Num 7000\<rparr>" "''t1''"] j
  have c: "commitKnob ''t1'' (default_state\<lparr>knobValue := Num 7000\<rparr>) =
     Some (default_state\<lparr>entries := [Ent \<lparr>amount = Num 7000, partName = None, date = Some ''t1''\<rparr>],
                         progress := Num 32000\<rparr>)"
    by (simp add: default_state_def spread_def)
  from k a b c show ?thesis by blast
qed

text \<open>
  C10. Typing a target into the settings input changes the target (to \<open>Number\<close> of
  the text) and nothing else: the pending value, progress and the ledger are as they
  were. The pending value is not clamped again: with target 100000 and pending value
  150000 (in range), the new target 1000 leaves 150000 pending, outside
  \<open>[0, max(1000, 2000)]\<close>, and the next quick button (-1k) brings it back into the
  range, to 2000.
\<close>

theorem target_change_frame:
  "(onTargetChange v s = Some s' \<longrightarrow>
      StringToNumber v = Some (targetSum s') \<and> s' = s\<lparr>targetSum := targetSum s'\<rparr> \<and>
      knobValue s' = knobValue s \<and> progress s' = progress s \<and> entries s' = entries s) \<and>
   knob_in_range (default_state\<lparr>knobValue := Num 150000\<rparr>) \<and>
   onTargetChange ''1000'' (default_state\<lparr>knobValue := Num 150000\<rparr>) =
     Some (default_state\<lparr>knobValue := Num 150000, targetSum := Num 1000\<rparr>) \<and>
   \<not> knob_in_range (default_state\<lparr>knobValue := Num 150000, targetSum := Num 1000\<rparr>) \<and>
   knob_range (default_state\<lparr>knobValue := Num 150000, targetSum := Num 1000\<rparr>) = Num 2000 \<and>
   quickButton Minus1k (default_state\<lparr>knobValue := Num 150000, targetSum := Num 1000\<rparr>) =
     default_state\<lparr>knobValue := Num 2000, targetSum := Num 1000\<rparr> \<and>
   knob_in_range (default_state\<lparr>knobValue := Num 2000, targetSum := Num 1000\<rparr>)"
proof -
  have "onTargetChange v s = Some s' \<longrightarrow>
      StringToNumber v = Some (targetSum s') \<and> s' = s\<lparr>targetSum := targetSum s'\<rparr> \<and>
      knobValue s' = knobValue s \<and> progress s' = progress s \<and> entries s' = entries s"
    by (auto simp: onTargetChange_def split: Option.bind_splits)
  moreover have "knob_in_range (default_state\<lparr>knobValue := Num 150000\<rparr>)"
    by code_simp
  moreover have "onTargetChange ''1000'' (default_state\<lparr>knobValue := Num 150000\<rparr>) =
     Some (default_state\<lparr>knobValue := Num 150000, targetSum := Num 1000\<rparr>)"
    by code_simp
  moreover have "\<not> knob_in_range (default_state\<lparr>knobValue := Num 150000, targetSum := Num 1000\<rparr>)"
    by code_simp
  moreover have "knob_range (default_state\<lparr>knobValue := Num 150000, targetSum := Num 1000\<rparr>) = Num 2000"
    by code_simp
  moreover have "quickButton Minus1k (default_state\<lparr>knobValue := Num 150000, targetSum := Num 1000\<rparr>) =
     default_state\<lparr>knobValue := Num 2000, targetSum := Num 1000\<rparr>"
    by code_simp
  moreover have "knob_in_range (default_state\<lparr>knobValue := Num 2000, targetSum := Num 1000\<rparr>)"
    by code_simp
  ultimately show ?thesis by blast
qed

theorem target_change_frame_witness:
  "onTargetChange ''5000'' default_state = Some (default_state\<lparr>targetSum := Num 5000\<rparr>) \<and>
   knobValue (default_state\<lparr>targetSum := Num 5000\<rparr>) = knobValue default_state \<and>
   progress (default_state\<lparr>targetSum := Num 5000\<rparr>) = progress default_state \<and>
   entries (default_state\<lparr>targetSum := Num 5000\<rparr>) = entries default_state"
proof -
  have c: "onTargetChange ''5000'' default_state = Some (default_state\<lparr>targetSum := Num 5000\<rparr>)"
    by code_simp
  from target_change_frame [of "''5000''" default_state "default_state\<lparr>targetSum := Num 5000\<rparr>"] c
  show ?thesis by blast
qed

end
